theory Spec2Isabelle
  imports Complex_Main "HOL-Library.Sublist"
begin

section \<open>Python values and exceptions\<close>

text \<open>
  The values \<^verbatim>\<open>json.loads\<close> produces: \<^verbatim>\<open>None\<close>, booleans, integers, floats, strings,
  lists and dicts. A dict is an association list in insertion order, every key at most
  once; \<open>map_of\<close> is the lookup \<^verbatim>\<open>d[k]\<close>, and \<^verbatim>\<open>k in d\<close> is \<open>map_of d k \<noteq> None\<close>.
  Strings are lists of characters, \<^verbatim>\<open>len\<close> counts them.
\<close>

datatype pyval =
    PNone
  | PBool bool
  | PInt int
  | PFloat rat
  | PStr string
  | PList "pyval list"
  | PDict "(string \<times> pyval) list"

text \<open>
  One entry of pydantic's \<^verbatim>\<open>ValidationError.errors()\<close>: the keys \<^verbatim>\<open>'loc'\<close> (a tuple of
  field names and list indices) and \<^verbatim>\<open>'msg'\<close>.
\<close>

datatype loc_item = LocStr string | LocInt int

record verror =
  err_loc :: "loc_item list"
  err_msg :: string

text \<open>
  The exceptions that the generation actor raises, catches or lets through.
  \<open>JSONDecodeError\<close> and \<open>ValidationError\<close> are subclasses of \<open>ValueError\<close> in
  Python; \<open>ValueError\<close> carries its message and its \<^verbatim>\<open>__cause__\<close>. \<open>OtherError\<close> is any
  other subclass of \<^verbatim>\<open>Exception\<close> outside the \<open>ValueError\<close> family that a collaborator
  raises (class name and message).
\<close>

datatype exn =
    JSONDecodeError string
  | ValidationError "verror list"
  | ValueError string "exn option"
  | KeyError string
  | TypeError string
  | ZeroDivisionError
  | UnboundLocalError string
  | AttributeError string
  | BreakerOpenError
  | OtherError string string

text \<open>
  What an awaited call can raise: an exception of a subclass of \<^verbatim>\<open>Exception\<close>, or one
  that derives from \<^verbatim>\<open>BaseException\<close> only, kept by its class name
  (\<^verbatim>\<open>asyncio.CancelledError\<close> when the task is cancelled at the await,
  \<^verbatim>\<open>KeyboardInterrupt\<close>, \<^verbatim>\<open>SystemExit\<close>). A handler \<^verbatim>\<open>except Exception\<close> catches the former
  and lets the latter through. The synchronous calls (\<^verbatim>\<open>json.loads\<close>, \<open>parse_response\<close>,
  \<^verbatim>\<open>len\<close>, dict lookups) raise subclasses of \<^verbatim>\<open>Exception\<close> only.
\<close>

datatype raised = Exception exn | BaseException string

text \<open>\<^verbatim>\<open>str(n)\<close> of an integer: its decimal digits, with a minus sign below zero.\<close>

fun str_nat :: "nat \<Rightarrow> string" where
  "str_nat n =
     (if n < 10 then [''0123456789'' ! n]
      else str_nat (n div 10) @ [''0123456789'' ! (n mod 10)])"

declare str_nat.simps [simp del]

definition str_int :: "int \<Rightarrow> string" where
  "str_int i = (if i < 0 then CHR ''-'' # str_nat (nat (- i)) else str_nat (nat i))"

text \<open>A name between single quotes, as Python's error messages print it.\<close>

definition quoted :: "string \<Rightarrow> string" where
  "quoted name = [CHR 0x27] @ name @ [CHR 0x27]"

text \<open>\<^verbatim>\<open>sep.join(parts)\<close>.\<close>

fun join :: "string \<Rightarrow> string list \<Rightarrow> string" where
  "join sep [] = []"
| "join sep [p] = p"
| "join sep (p # q # ps) = p @ sep @ join sep (q # ps)"

text \<open>\<^verbatim>\<open>xs[:n]\<close>: the first \<open>n\<close> elements, and all but the last \<open>-n\<close> when \<open>n\<close> is negative.\<close>

definition py_prefix :: "'a list \<Rightarrow> int \<Rightarrow> 'a list" where
  "py_prefix xs n =
     (if 0 \<le> n then take (nat n) xs else take (length xs - nat (- n)) xs)"

text \<open>\<^verbatim>\<open>len(v)\<close>: defined on strings, lists and dicts, a \<open>TypeError\<close> elsewhere.\<close>

fun type_name :: "pyval \<Rightarrow> string" where
  "type_name PNone = ''NoneType''"
| "type_name (PBool b) = ''bool''"
| "type_name (PInt i) = ''int''"
| "type_name (PFloat r) = ''float''"
| "type_name (PStr s) = ''str''"
| "type_name (PList vs) = ''list''"
| "type_name (PDict kvs) = ''dict''"

fun py_len :: "pyval \<Rightarrow> exn + nat" where
  "py_len (PStr s) = Inr (length s)"
| "py_len (PList vs) = Inr (length vs)"
| "py_len (PDict kvs) = Inr (length kvs)"
| "py_len v = Inl (TypeError (''object of type '' @ quoted (type_name v) @ '' has no len()''))"

section \<open>Configuration and collaborators\<close>

text \<open>
  The constants imported from \<^verbatim>\<open>config.prompts\<close> and \<^verbatim>\<open>config.settings\<close>. Their values are
  not part of the sources at hand, so they are parameters. A dict read with \<^verbatim>\<open>.get\<close> or
  tested with \<^verbatim>\<open>in\<close> is a map; \<^verbatim>\<open>PROMPT_CONFIG\<close> is read at two fixed keys only and is a
  pair of fields.
\<close>

record config =
  PROMPTS :: "string \<rightharpoonup> (string \<rightharpoonup> string)"
  use_json_mode :: bool
  json_fallback_enabled :: bool
  JSON_SCHEMA_INSTRUCTIONS :: "string \<rightharpoonup> string"
  MODE_GENERATION_PARAMS :: "string \<rightharpoonup> (string \<rightharpoonup> rat)"
  GENERATION_PARAMS_LOG_CONFIG :: "string \<rightharpoonup> bool"
  JSON_VALIDATION_CONFIG :: "string \<rightharpoonup> int"
  JSON_VALIDATION_LOG_FAILURES :: bool
  JSON_VALIDATION_ENABLED :: bool
  CACHE_HIT_LOG_INTERVAL :: int
  DEEPSEEK_API_KEY :: string
  DEEPSEEK_MODEL :: string

section \<open>Prompt composition\<close>

text \<open>
  \<^verbatim>\<open>_build_mode_prompt\<close> (Isabelle names cannot start with an underscore, so the leading
  underscore of the private methods is dropped throughout). \<^verbatim>\<open>"TODO" in mode_modifier\<close> is
  the contiguous-substring test \<open>sublist\<close>.
\<close>

definition build_mode_prompt :: "config \<Rightarrow> string \<Rightarrow> string \<Rightarrow> bool \<Rightarrow> string" where
  "build_mode_prompt cfg base_prompt mode use_json =
     (if mode = ''base'' then base_prompt
      else case PROMPTS cfg mode of
        None \<Rightarrow> base_prompt
      | Some mode_prompts \<Rightarrow>
          (let prompt_key = (if use_json then ''json'' else ''normal'');
               mode_modifier = (case mode_prompts prompt_key of None \<Rightarrow> [] | Some m \<Rightarrow> m)
           in if mode_modifier = [] \<or> sublist ''TODO'' mode_modifier then base_prompt
              else (let final_prompt = base_prompt @ [CHR 0x0A, CHR 0x0A] @ mode_modifier
                    in if use_json then
                         (case JSON_SCHEMA_INSTRUCTIONS cfg mode of
                            None \<Rightarrow> final_prompt
                          | Some instructions \<Rightarrow>
                              final_prompt @ [CHR 0x0A, CHR 0x0A] @ instructions)
                       else final_prompt)))"

text \<open>One chat message, \<^verbatim>\<open>{"role": ..., "content": ...}\<close>.\<close>

record chat_message =
  role :: string
  content :: string

text \<open>
  \<^verbatim>\<open>_format_context\<close>. \<^verbatim>\<open>PROMPTS["base"][prompt_key]\<close> raises \<open>KeyError\<close> when either key
  is missing.
\<close>

definition format_context ::
  "config \<Rightarrow> string \<Rightarrow> bool \<Rightarrow> bool \<Rightarrow> string \<Rightarrow> exn + chat_message list" where
  "format_context cfg text include_prompt force_normal mode =
     (let user_message = \<lparr>role = ''user'', content = text\<rparr>
      in if include_prompt then
           (let use_json = (use_json_mode cfg \<and> \<not> force_normal);
                prompt_key = (if use_json then ''json'' else ''normal'')
            in case PROMPTS cfg ''base'' of
                 None \<Rightarrow> Inl (KeyError ''base'')
               | Some base_prompts \<Rightarrow>
                   (case base_prompts prompt_key of
                      None \<Rightarrow> Inl (KeyError prompt_key)
                    | Some base_prompt \<Rightarrow>
                        Inr [\<lparr>role = ''system'',
                              content = build_mode_prompt cfg base_prompt mode use_json\<rparr>,
                             user_message]))
         else Inr [user_message])"

section \<open>Structured extraction and validation\<close>

text \<open>
  The collaborators of the actor that are not part of the sources at hand, as parameters:
  \<^item> \<open>json_loads\<close> is \<^verbatim>\<open>json.loads\<close>: the parsed value, or the exception it raises
    (\<open>JSONDecodeError\<close> on malformed text);
  \<^item> \<open>parse_response\<close> is \<^verbatim>\<open>models.structured_responses.parse_response\<close>; its result is
    discarded by every caller, so only the exception it raises (if any) is kept;
  \<^item> \<open>py_str\<close> is the builtin \<^verbatim>\<open>str\<close> on an arbitrary value;
  \<^item> \<open>provider\<close> is the streaming completion endpoint: for the \<open>n\<close>-th request it
    either raises (at the request or while the stream is awaited) or yields the chunks
    of the stream;
  \<^item> \<open>sink_append\<close> is \<^verbatim>\<open>EventVersionManager.append_event\<close>: given the events stored
    so far and the new one, it stores the event (\<open>None\<close>) or raises;
  \<^item> \<open>get_actor_system\<close> tells whether the actor is attached to an actor system.
\<close>

record usage =
  usage_prompt_cache_hit_tokens :: "int option"
  usage_prompt_cache_miss_tokens :: "int option"

record chunk =
  delta_content :: "string option"
  chunk_usage :: "usage option"

text \<open>The keyword arguments of \<^verbatim>\<open>chat.completions.create\<close>.\<close>

record request =
  kw_model :: string
  kw_messages :: "chat_message list"
  kw_temperature :: rat
  kw_top_p :: rat
  kw_max_tokens :: rat
  kw_frequency_penalty :: rat
  kw_presence_penalty :: rat
  kw_stream :: bool
  kw_response_format :: "string option"

text \<open>
  Events. \<^verbatim>\<open>BaseEvent.create(stream_id, event_type, data)\<close>; the \<^verbatim>\<open>timestamp\<close> entries
  (\<^verbatim>\<open>datetime.now()\<close>) are left out.
\<close>

record params_used =
  pu_user_id :: string
  pu_mode :: string
  pu_temperature :: "rat option"
  pu_top_p :: "rat option"
  pu_max_tokens :: "rat option"
  pu_frequency_penalty :: "rat option"
  pu_presence_penalty :: "rat option"
  pu_response_length :: "nat option"

datatype event_data =
    ParametersUsedData params_used
  | CacheHitData int int rat
  | JSONFailureData string string
  | ValidationFailedData string "string list" "string list"

record base_event =
  stream_id :: string
  event_type :: string
  ev_data :: event_data

record collab =
  json_loads :: "string \<Rightarrow> exn + pyval"
  parse_response :: "pyval \<Rightarrow> string \<Rightarrow> exn option"
  py_str :: "pyval \<Rightarrow> string"
  provider :: "nat \<Rightarrow> request \<Rightarrow> raised + chunk list"
  sink_append :: "base_event list \<Rightarrow> base_event \<Rightarrow> raised option"
  get_actor_system :: bool

text \<open>
  \<^verbatim>\<open>_extract_from_json\<close>. The inner \<^verbatim>\<open>try\<close> calls \<open>parse_response\<close> and its handler
  \<^verbatim>\<open>except Exception\<close> swallows what that raises; the outer \<^verbatim>\<open>except\<close> logs and re-raises,
  so every exception passes through.
\<close>

definition extract_from_json :: "collab \<Rightarrow> string \<Rightarrow> string \<Rightarrow> bool \<Rightarrow> exn + pyval" where
  "extract_from_json env response user_id return_full_dict =
     (case json_loads env response of
        Inl e \<Rightarrow> Inl e
      | Inr data \<Rightarrow>
          (let swallowed = (if return_full_dict then parse_response env data ''base'' else None)
           in case data of
                PDict kvs \<Rightarrow>
                  (case map_of kvs ''response'' of
                     Some v \<Rightarrow> Inr (if return_full_dict then data else v)
                   | None \<Rightarrow>
                       Inl (ValueError ''JSON doesn't contain 'response' field'' None))
              | _ \<Rightarrow> Inl (ValueError ''JSON doesn't contain 'response' field'' None)))"

text \<open>\<^verbatim>\<open>f"{field}: {msg}"\<close> with \<^verbatim>\<open>field = '.'.join(str(x) for x in error['loc'])\<close>.\<close>

fun str_loc :: "loc_item \<Rightarrow> string" where
  "str_loc (LocStr s) = s"
| "str_loc (LocInt i) = str_int i"

definition format_error :: "verror \<Rightarrow> string" where
  "format_error error = join ''.'' (map str_loc (err_loc error)) @ '': '' @ err_msg error"

text \<open>
  The block that both \<^verbatim>\<open>except\<close> branches of \<^verbatim>\<open>_validate_structured_response\<close> end with:
  the cap is \<^verbatim>\<open>JSON_VALIDATION_CONFIG.get('max_validation_errors', 5)\<close>.
\<close>

definition limit_errors :: "config \<Rightarrow> string list \<Rightarrow> string list" where
  "limit_errors cfg errors =
     (let max_errors = (case JSON_VALIDATION_CONFIG cfg ''max_validation_errors'' of
                          None \<Rightarrow> 5 | Some m \<Rightarrow> m)
      in if int (length errors) > max_errors then
           py_prefix errors max_errors
             @ [''... and '' @ str_int (int (length errors) - max_errors) @ '' more errors'']
         else errors)"

text \<open>
  \<^verbatim>\<open>_validate_structured_response\<close>. \<^verbatim>\<open>except ValidationError\<close> comes first, then
  \<^verbatim>\<open>except ValueError\<close>, which also catches a \<open>JSONDecodeError\<close>; any other exception
  passes through.
\<close>

definition validate_structured_response ::
  "config \<Rightarrow> collab \<Rightarrow> pyval \<Rightarrow> string \<Rightarrow> exn + (bool \<times> string list)" where
  "validate_structured_response cfg env response_dict mode =
     (if \<not> JSON_VALIDATION_ENABLED cfg then Inr (True, [])
      else case parse_response env response_dict mode of
        None \<Rightarrow> Inr (True, [])
      | Some (ValidationError errs) \<Rightarrow> Inr (False, limit_errors cfg (map format_error errs))
      | Some (ValueError m cause) \<Rightarrow>
          Inr (False, limit_errors cfg
                 (case cause of
                    Some (ValidationError errs) \<Rightarrow> map format_error errs
                  | _ \<Rightarrow> [m]))
      | Some (JSONDecodeError m) \<Rightarrow> Inr (False, limit_errors cfg [m])
      | Some e \<Rightarrow> Inl e)"

section \<open>Circuit breaker\<close>

text \<open>
  Modelled from the spec: \<^verbatim>\<open>utils.circuit_breaker.CircuitBreaker\<close> is imported by the
  actor but its code is not among the sources. The state machine below follows section
  4.1 of the specification: Closed to Open after \<open>threshold\<close> consecutive failures,
  recording the failure timestamp; Open to HalfOpen at the first call at or after
  \<open>lastFailure + recoveryTimeout\<close>, letting exactly one trial through; HalfOpen to Closed
  when the trial succeeds, with the counter reset to zero; HalfOpen to Open when it fails,
  with the timestamp reset and the counter unchanged. Whatever the operation raises
  counts as a failure, with no filtering by exception type. Time is an integer number of
  seconds, read once per call.
\<close>

datatype breaker_status = Closed | Open | HalfOpen

record breaker =
  cb_name :: string
  status :: breaker_status
  failure_count :: nat
  failure_threshold :: nat
  recovery_timeout :: int
  last_failure :: int

text \<open>
  Modelled from the spec: admission to \<^verbatim>\<open>CircuitBreaker.call\<close>, whose code is missing.
  \<open>None\<close> is the fast failure \<open>BreakerOpenError\<close>. While a trial is in flight (HalfOpen)
  no second caller is admitted.
\<close>

definition breaker_admit :: "breaker \<Rightarrow> int \<Rightarrow> breaker option" where
  "breaker_admit b now =
     (case status b of
        Closed \<Rightarrow> Some b
      | Open \<Rightarrow>
          (if last_failure b + recovery_timeout b \<le> now then Some (b\<lparr>status := HalfOpen\<rparr>)
           else None)
      | HalfOpen \<Rightarrow> None)"

text \<open>
  Modelled from the spec: what \<^verbatim>\<open>CircuitBreaker.call\<close>, whose code is missing, records
  when the operation returns. A success closes the breaker and resets the counter.
\<close>

definition breaker_on_success :: "breaker \<Rightarrow> breaker" where
  "breaker_on_success b = b\<lparr>status := Closed, failure_count := 0\<rparr>"

text \<open>
  Modelled from the spec: what \<^verbatim>\<open>CircuitBreaker.call\<close>, whose code is missing, records
  when the operation raises. A failed trial opens the breaker again with a new timestamp
  and the counter as it was; any other failure is counted, and opens the breaker once the
  count reaches the threshold.
\<close>

definition breaker_on_failure :: "breaker \<Rightarrow> int \<Rightarrow> breaker" where
  "breaker_on_failure b now =
     (case status b of
        HalfOpen \<Rightarrow> b\<lparr>status := Open, last_failure := now\<rparr>
      | _ \<Rightarrow>
          (let n = failure_count b + 1
           in if failure_threshold b \<le> n
              then b\<lparr>status := Open, failure_count := n, last_failure := now\<rparr>
              else b\<lparr>failure_count := n\<rparr>))"

text \<open>
  Modelled from the spec: \<^verbatim>\<open>CircuitBreaker.call(operation)\<close>, whose code is missing. The
  operation works on a state \<open>'s\<close> and returns its result or the exception it raised,
  with the state it left behind.
\<close>

definition breaker_call ::
  "breaker \<Rightarrow> int \<Rightarrow> ('s \<Rightarrow> (raised + 'a) \<times> 's) \<Rightarrow> 's
     \<Rightarrow> (raised + 'a) \<times> breaker \<times> 's" where
  "breaker_call b now operation s =
     (case breaker_admit b now of
        None \<Rightarrow> (Inl (Exception BreakerOpenError), b, s)
      | Some b1 \<Rightarrow>
          (case operation s of
             (Inl e, s1) \<Rightarrow> (Inl e, breaker_on_failure b1 now, s1)
           | (Inr v, s1) \<Rightarrow> (Inr v, breaker_on_success b1, s1)))"

text \<open>A sequence of calls through one breaker, each with the time it is issued at.\<close>

fun breaker_calls ::
  "breaker \<Rightarrow> (int \<times> ('s \<Rightarrow> (raised + 'a) \<times> 's)) list \<Rightarrow> 's
     \<Rightarrow> (raised + 'a) list \<times> breaker \<times> 's" where
  "breaker_calls b [] s = ([], b, s)"
| "breaker_calls b ((now, operation) # rest) s =
     (case breaker_call b now operation s of
        (r, b1, s1) \<Rightarrow>
          (case breaker_calls b1 rest s1 of (rs, b2, s2) \<Rightarrow> (r # rs, b2, s2)))"

section \<open>The generation actor\<close>

text \<open>
  What the actor sends to another actor: an \<^verbatim>\<open>ActorMessage\<close> with its sender, its type
  and its payload (\<^verbatim>\<open>message_id\<close>, \<^verbatim>\<open>timestamp\<close> and \<^verbatim>\<open>generated_at\<close> are left out). The
  payload of an error message holds the exception where the source holds \<^verbatim>\<open>str(e)\<close>.
\<close>

datatype out_payload =
    BotResponsePayload string pyval pyval
  | ErrorPayload string pyval exn string

record out_message =
  out_sender_id :: string
  out_message_type :: string
  out_payload :: out_payload

text \<open>
  The fields of \<^verbatim>\<open>self\<close> (\<open>generation_count\<close> to \<open>circuit_breaker\<close>, which is \<^verbatim>\<open>None\<close>
  until \<^verbatim>\<open>initialize\<close> has run), followed by what the actor does to its surroundings: the
  requests that reached the provider, the events the sink has stored, the messages sent
  through the actor system with their recipient, and the clock the breaker reads.
\<close>

record state =
  generation_count :: nat
  total_cache_hits :: rat
  json_failures :: nat
  mode_success_counts :: "string \<rightharpoonup> nat"
  mode_failure_counts :: "string \<rightharpoonup> nat"
  circuit_breaker :: "breaker option"
  requests :: "request list"
  events :: "base_event list"
  outbox :: "(string \<times> out_message) list"
  clock :: int

text \<open>\<^verbatim>\<open>__init__\<close>, in surroundings where nothing has happened yet.\<close>

definition mode_counts_init :: "string \<rightharpoonup> nat" where
  "mode_counts_init =
     [''base'' \<mapsto> 0, ''talk'' \<mapsto> 0, ''expert'' \<mapsto> 0, ''creative'' \<mapsto> 0]"

definition init :: "int \<Rightarrow> state" where
  "init now =
     \<lparr>generation_count = 0, total_cache_hits = 0, json_failures = 0,
      mode_success_counts = mode_counts_init, mode_failure_counts = mode_counts_init,
      circuit_breaker = None, requests = [], events = [], outbox = [], clock = now\<rparr>"

text \<open>\<^verbatim>\<open>initialize\<close>: the breaker is created Closed, with no failure counted.\<close>

definition initialize :: "config \<Rightarrow> state \<Rightarrow> exn + state" where
  "initialize cfg s =
     (if DEEPSEEK_API_KEY cfg = [] then
        Inl (ValueError ''DEEPSEEK_API_KEY not set in config/settings.py'' None)
      else Inr (s\<lparr>circuit_breaker :=
                   Some \<lparr>cb_name = ''deepseek_api'', status = Closed, failure_count = 0,
                         failure_threshold = 3, recovery_timeout = 60,
                         last_failure = 0\<rparr>\<rparr>))"

text \<open>\<^verbatim>\<open>_append_event\<close>: whatever the sink raises passes through.\<close>

definition append_event :: "collab \<Rightarrow> base_event \<Rightarrow> state \<Rightarrow> (raised + unit) \<times> state" where
  "append_event env event s =
     (case sink_append env (events s) event of
        Some e \<Rightarrow> (Inl e, s)
      | None \<Rightarrow> (Inr (), s\<lparr>events := events s @ [event]\<rparr>))"

text \<open>
  \<^verbatim>\<open>_log_cache_metrics\<close>. The rate is the exact quotient where Python has the float
  nearest to it. \<^verbatim>\<open>self._generation_count % CACHE_HIT_LOG_INTERVAL\<close> raises
  \<open>ZeroDivisionError\<close> for an interval of zero; the log line itself has no effect.
\<close>

definition log_cache_metrics ::
  "config \<Rightarrow> collab \<Rightarrow> int \<Rightarrow> int \<Rightarrow> state \<Rightarrow> (raised + unit) \<times> state" where
  "log_cache_metrics cfg env hit_tokens miss_tokens s =
     (let s1 = s\<lparr>generation_count := generation_count s + 1\<rparr>;
          total_tokens = hit_tokens + miss_tokens
      in if total_tokens > 0 then
           (let cache_hit_rate = of_int hit_tokens / of_int total_tokens;
                s2 = s1\<lparr>total_cache_hits := total_cache_hits s1 + cache_hit_rate\<rparr>
            in if CACHE_HIT_LOG_INTERVAL cfg = 0 then (Inl (Exception ZeroDivisionError), s2)
               else append_event env
                      \<lparr>stream_id = ''metrics'', event_type = ''CacheHitMetricEvent'',
                       ev_data = CacheHitData hit_tokens miss_tokens cache_hit_rate\<rparr> s2)
         else (Inr (), s1))"

text \<open>\<^verbatim>\<open>_log_json_failure\<close> and \<^verbatim>\<open>_log_validation_failure\<close>.\<close>

definition log_json_failure :: "collab \<Rightarrow> string \<Rightarrow> string \<Rightarrow> state \<Rightarrow> (raised + unit) \<times> state" where
  "log_json_failure env user_id error s =
     append_event env
       \<lparr>stream_id = ''user_'' @ user_id, event_type = ''JSONModeFailureEvent'',
        ev_data = JSONFailureData user_id error\<rparr> s"

definition log_validation_failure ::
  "collab \<Rightarrow> string \<Rightarrow> string list \<Rightarrow> pyval \<Rightarrow> state \<Rightarrow> (raised + unit) \<times> state" where
  "log_validation_failure env user_id errors response_data s =
     (case response_data of
        PDict kvs \<Rightarrow>
          append_event env
            \<lparr>stream_id = ''validation_'' @ user_id, event_type = ''JSONValidationFailedEvent'',
             ev_data = ValidationFailedData user_id errors (map fst kvs)\<rparr> s
      | _ \<Rightarrow>
          (Inl (Exception (AttributeError (quoted (type_name response_data)
                  @ '' object has no attribute '' @ quoted ''keys''))), s))"

text \<open>
  The \<^verbatim>\<open>async for\<close> loop of \<^verbatim>\<open>api_call\<close>: the text fragments are concatenated in arrival
  order, and a chunk that carries usage data overwrites both token counts (an absent
  attribute reads as 0).
\<close>

fun collect_chunks :: "chunk list \<Rightarrow> string \<times> int \<times> int \<Rightarrow> string \<times> int \<times> int" where
  "collect_chunks [] acc = acc"
| "collect_chunks (chunk # rest)
       (full_response, prompt_cache_hit_tokens, prompt_cache_miss_tokens) =
     collect_chunks rest
       ((case delta_content chunk of
           None \<Rightarrow> full_response
         | Some c \<Rightarrow> (if c = [] then full_response else full_response @ c)),
        (case chunk_usage chunk of
           None \<Rightarrow> prompt_cache_hit_tokens
         | Some u \<Rightarrow> (case usage_prompt_cache_hit_tokens u of None \<Rightarrow> 0 | Some h \<Rightarrow> h)),
        (case chunk_usage chunk of
           None \<Rightarrow> prompt_cache_miss_tokens
         | Some u \<Rightarrow> (case usage_prompt_cache_miss_tokens u of None \<Rightarrow> 0 | Some m \<Rightarrow> m)))"

text \<open>\<^verbatim>\<open>d.get(key, default)\<close>.\<close>

definition get_default :: "('k \<rightharpoonup> 'v) \<Rightarrow> 'k \<Rightarrow> 'v \<Rightarrow> 'v" where
  "get_default d key dflt = (case d key of None \<Rightarrow> dflt | Some v \<Rightarrow> v)"

text \<open>
  The inner function \<^verbatim>\<open>api_call\<close> of \<^verbatim>\<open>_call_api\<close>. The default of
  \<^verbatim>\<open>MODE_GENERATION_PARAMS.get(mode, MODE_GENERATION_PARAMS["base"])\<close> is evaluated first,
  so a table without \<open>base\<close> raises \<open>KeyError\<close>. A provider failure, at the request or in
  the middle of the stream, leaves nothing behind but the request.
\<close>

definition api_call ::
  "config \<Rightarrow> collab \<Rightarrow> chat_message list \<Rightarrow> bool \<Rightarrow> string \<Rightarrow> state
     \<Rightarrow> (raised + string) \<times> state" where
  "api_call cfg env messages use_json mode s =
     (case MODE_GENERATION_PARAMS cfg ''base'' of
        None \<Rightarrow> (Inl (Exception (KeyError ''base'')), s)
      | Some base_params \<Rightarrow>
          (let mode_params = get_default (MODE_GENERATION_PARAMS cfg) mode base_params;
               kwargs =
                 \<lparr>kw_model = DEEPSEEK_MODEL cfg, kw_messages = messages,
                  kw_temperature = get_default mode_params ''temperature'' (82 / 100),
                  kw_top_p = get_default mode_params ''top_p'' (85 / 100),
                  kw_max_tokens = get_default mode_params ''max_tokens'' 1800,
                  kw_frequency_penalty = get_default mode_params ''frequency_penalty'' (4 / 10),
                  kw_presence_penalty = get_default mode_params ''presence_penalty'' (65 / 100),
                  kw_stream = True,
                  kw_response_format = (if use_json then Some ''json_object'' else None)\<rparr>;
               s1 = s\<lparr>requests := requests s @ [kwargs]\<rparr>
           in case provider env (length (requests s)) kwargs of
                Inl e \<Rightarrow> (Inl e, s1)
              | Inr chunks \<Rightarrow>
                  (case collect_chunks chunks ([], 0, 0) of
                     (full_response, prompt_cache_hit_tokens, prompt_cache_miss_tokens) \<Rightarrow>
                       (case log_cache_metrics cfg env prompt_cache_hit_tokens
                               prompt_cache_miss_tokens s1 of
                          (Inl e, s2) \<Rightarrow> (Inl e, s2)
                        | (Inr u, s2) \<Rightarrow> (Inr full_response, s2)))))"

text \<open>\<^verbatim>\<open>_call_api\<close>: the call goes through the breaker held in \<^verbatim>\<open>self\<close>.\<close>

definition call_api ::
  "config \<Rightarrow> collab \<Rightarrow> chat_message list \<Rightarrow> bool \<Rightarrow> string \<Rightarrow> state
     \<Rightarrow> (raised + string) \<times> state" where
  "call_api cfg env messages use_json mode s =
     (case circuit_breaker s of
        None \<Rightarrow>
          (Inl (Exception (AttributeError (quoted ''NoneType''
                  @ '' object has no attribute '' @ quoted ''call''))), s)
      | Some b \<Rightarrow>
          (case breaker_call b (clock s) (api_call cfg env messages use_json mode) s of
             (r, b1, s1) \<Rightarrow> (r, s1\<lparr>circuit_breaker := Some b1\<rparr>)))"

text \<open>
  The block that emits the \<^verbatim>\<open>GenerationParametersUsedEvent\<close> (it occurs in both branches
  of the \<^verbatim>\<open>try\<close>). The parameters are looked up first, then the entry \<^verbatim>\<open>response_length\<close>
  is computed (\<^verbatim>\<open>len\<close> may raise), then the event is appended.
\<close>

definition log_parameters_used ::
  "config \<Rightarrow> collab \<Rightarrow> string \<Rightarrow> string \<Rightarrow> exn + nat option \<Rightarrow> state
     \<Rightarrow> (raised + unit) \<times> state" where
  "log_parameters_used cfg env user_id mode response_length s =
     (case MODE_GENERATION_PARAMS cfg ''base'' of
        None \<Rightarrow> (Inl (Exception (KeyError ''base'')), s)
      | Some base_params \<Rightarrow>
          (let used_params = get_default (MODE_GENERATION_PARAMS cfg) mode base_params
           in case response_length of
                Inl e \<Rightarrow> (Inl (Exception e), s)
              | Inr len \<Rightarrow>
                  append_event env
                    \<lparr>stream_id = ''generation_'' @ user_id,
                     event_type = ''GenerationParametersUsedEvent'',
                     ev_data = ParametersUsedData
                       \<lparr>pu_user_id = user_id, pu_mode = mode,
                        pu_temperature = used_params ''temperature'',
                        pu_top_p = used_params ''top_p'',
                        pu_max_tokens = used_params ''max_tokens'',
                        pu_frequency_penalty = used_params ''frequency_penalty'',
                        pu_presence_penalty = used_params ''presence_penalty'',
                        pu_response_length = len\<rparr>\<rparr> s))"

text \<open>
  Inside \<^verbatim>\<open>_generate_response\<close>, the validation of the parsed payload with the update of
  the per-mode counters. \<^verbatim>\<open>self._mode_success_counts[mode] += 1\<close> reads the entry before
  it writes it: a mode that is not a key raises \<open>KeyError\<close>.
\<close>

definition validate_and_count ::
  "config \<Rightarrow> collab \<Rightarrow> string \<Rightarrow> string \<Rightarrow> pyval \<Rightarrow> state \<Rightarrow> (raised + unit) \<times> state" where
  "validate_and_count cfg env user_id mode full_data s =
     (case validate_structured_response cfg env full_data mode of
        Inl e \<Rightarrow> (Inl (Exception e), s)
      | Inr (is_valid, errors) \<Rightarrow>
          (case (if \<not> is_valid then log_validation_failure env user_id errors full_data s
                 else (Inr (), s)) of
             (Inl e, s1) \<Rightarrow> (Inl e, s1)
           | (Inr u, s1) \<Rightarrow>
               (if is_valid then
                  (case mode_success_counts s1 mode of
                     None \<Rightarrow> (Inl (Exception (KeyError mode)), s1)
                   | Some n \<Rightarrow>
                       (Inr (), s1\<lparr>mode_success_counts :=
                                      (mode_success_counts s1)(mode \<mapsto> n + 1)\<rparr>))
                else
                  (case mode_failure_counts s1 mode of
                     None \<Rightarrow> (Inl (Exception (KeyError mode)), s1)
                   | Some n \<Rightarrow>
                       (Inr (), s1\<lparr>mode_failure_counts :=
                                      (mode_failure_counts s1)(mode \<mapsto> n + 1)\<rparr>)))))"

fun is_dict :: "pyval \<Rightarrow> bool" where
  "is_dict (PDict kvs) = True"
| "is_dict v = False"

text \<open>The branch \<^verbatim>\<open>if use_json:\<close> of the \<^verbatim>\<open>try\<close>, after the provider has answered.\<close>

definition structured_result ::
  "config \<Rightarrow> collab \<Rightarrow> string \<Rightarrow> string \<Rightarrow> string \<Rightarrow> state
     \<Rightarrow> (raised + pyval) \<times> state" where
  "structured_result cfg env user_id mode response s =
     (case extract_from_json env response user_id True of
        Inl e \<Rightarrow> (Inl (Exception e), s)
      | Inr full_data \<Rightarrow>
          (case (if JSON_VALIDATION_LOG_FAILURES cfg \<and> is_dict full_data
                 then validate_and_count cfg env user_id mode full_data s
                 else (Inr (), s)) of
             (Inl e, s1) \<Rightarrow> (Inl e, s1)
           | (Inr u, s1) \<Rightarrow>
               (case (case full_data of
                        PDict kvs \<Rightarrow>
                          (case map_of kvs ''response'' of
                             None \<Rightarrow> Inl (KeyError ''response'')
                           | Some v \<Rightarrow> Inr v)
                      | _ \<Rightarrow> Inr (PStr (py_str env full_data))) of
                  Inl e \<Rightarrow> (Inl (Exception e), s1)
                | Inr response_text \<Rightarrow>
                    (case (if get_default (GENERATION_PARAMS_LOG_CONFIG cfg)
                                 ''log_parameters_usage'' True
                           then log_parameters_used cfg env user_id mode
                                  (if get_default (GENERATION_PARAMS_LOG_CONFIG cfg)
                                        ''log_response_length'' True
                                   then map_sum id Some (py_len response_text)
                                   else Inr None) s1
                           else (Inr (), s1)) of
                       (Inl e, s2) \<Rightarrow> (Inl e, s2)
                     | (Inr u, s2) \<Rightarrow> (Inr response_text, s2)))))"

text \<open>The branch \<^verbatim>\<open>else:\<close> of the \<^verbatim>\<open>try\<close>: the raw text is the result.\<close>

definition plain_result ::
  "config \<Rightarrow> collab \<Rightarrow> string \<Rightarrow> string \<Rightarrow> string \<Rightarrow> state
     \<Rightarrow> (raised + pyval) \<times> state" where
  "plain_result cfg env user_id mode response s =
     (case (if get_default (GENERATION_PARAMS_LOG_CONFIG cfg) ''log_parameters_usage'' True
            then log_parameters_used cfg env user_id mode (Inr (Some (length response))) s
            else (Inr (), s)) of
        (Inl e, s1) \<Rightarrow> (Inl e, s1)
      | (Inr u, s1) \<Rightarrow> (Inr (PStr response), s1))"

text \<open>
  The body of the \<^verbatim>\<open>try\<close>. Besides its outcome it hands on the local variable
  \<^verbatim>\<open>response\<close>, which the handler reads and which is unbound (\<open>None\<close>) when the first call
  itself raised.
\<close>

definition first_attempt ::
  "config \<Rightarrow> collab \<Rightarrow> chat_message list \<Rightarrow> bool \<Rightarrow> string \<Rightarrow> string \<Rightarrow> state
     \<Rightarrow> (raised + pyval) \<times> string option \<times> state" where
  "first_attempt cfg env messages use_json user_id mode s =
     (case call_api cfg env messages use_json mode s of
        (Inl e, s1) \<Rightarrow> (Inl e, None, s1)
      | (Inr response, s1) \<Rightarrow>
          (case (if use_json then structured_result cfg env user_id mode response s1
                 else plain_result cfg env user_id mode response s1) of
             (r, s2) \<Rightarrow> (r, Some response, s2)))"

text \<open>
  \<^verbatim>\<open>_generate_response\<close>. The handler is \<^verbatim>\<open>except json.JSONDecodeError\<close>: no other
  exception is caught, and what the handler itself raises passes through. What the
  synchronous steps raise is a subclass of \<^verbatim>\<open>Exception\<close>.
\<close>

definition generate_response ::
  "config \<Rightarrow> collab \<Rightarrow> string \<Rightarrow> string \<Rightarrow> bool \<Rightarrow> string \<Rightarrow> state
     \<Rightarrow> (raised + pyval) \<times> state" where
  "generate_response cfg env text user_id include_prompt mode s =
     (case format_context cfg text include_prompt False mode of
        Inl e \<Rightarrow> (Inl (Exception e), s)
      | Inr messages \<Rightarrow>
          (let use_json = use_json_mode cfg
           in case first_attempt cfg env messages use_json user_id mode s of
                (Inl (Exception (JSONDecodeError e)), response, s1) \<Rightarrow>
                  (let s2 = s1\<lparr>json_failures := json_failures s1 + 1\<rparr>
                   in case log_json_failure env user_id e s2 of
                        (Inl e', s3) \<Rightarrow> (Inl e', s3)
                      | (Inr u, s3) \<Rightarrow>
                          (if json_fallback_enabled cfg \<and> use_json then
                             (case format_context cfg text include_prompt True mode of
                                Inl e' \<Rightarrow> (Inl (Exception e'), s3)
                              | Inr fallback_messages \<Rightarrow>
                                  (case call_api cfg env fallback_messages False mode s3 of
                                     (Inl e', s4) \<Rightarrow> (Inl e', s4)
                                   | (Inr fallback_response, s4) \<Rightarrow>
                                       (Inr (PStr fallback_response), s4)))
                           else
                             (case response of
                                None \<Rightarrow> (Inl (Exception (UnboundLocalError ''response'')), s3)
                              | Some raw \<Rightarrow> (Inr (PStr raw), s3))))
              | (r, response, s1) \<Rightarrow> (r, s1)))"

section \<open>Messages\<close>

text \<open>\<^verbatim>\<open>MessageType\<close>, a string-valued enumeration, and the value of each member.\<close>

datatype MessageType =
    PING | PONG | ERROR | SHUTDOWN | DLQ_QUEUED | DLQ_PROCESSED | DLQ_CLEANUP
  | USER_MESSAGE | GENERATE_RESPONSE | BOT_RESPONSE | STREAMING_CHUNK
  | SESSION_CREATED | SESSION_UPDATED | CACHE_HIT_METRIC | PROMPT_INCLUSION
  | JSON_MODE_FAILURE | TELEGRAM_MESSAGE_RECEIVED | PROCESS_USER_MESSAGE
  | SEND_TELEGRAM_RESPONSE | JSON_VALIDATION_FAILED | STRUCTURED_RESPONSE_GENERATED
  | MODE_DETECTED | MODE_FALLBACK | GENERATION_PARAMETERS_USED
  | PYDANTIC_VALIDATION_SUCCESS | PATTERN_DEBUG

fun MESSAGE_TYPES :: "MessageType \<Rightarrow> string" where
  "MESSAGE_TYPES PING = ''ping''"
| "MESSAGE_TYPES PONG = ''pong''"
| "MESSAGE_TYPES ERROR = ''error''"
| "MESSAGE_TYPES SHUTDOWN = ''shutdown''"
| "MESSAGE_TYPES DLQ_QUEUED = ''dlq_queued''"
| "MESSAGE_TYPES DLQ_PROCESSED = ''dlq_processed''"
| "MESSAGE_TYPES DLQ_CLEANUP = ''dlq_cleanup''"
| "MESSAGE_TYPES USER_MESSAGE = ''user_message''"
| "MESSAGE_TYPES GENERATE_RESPONSE = ''generate_response''"
| "MESSAGE_TYPES BOT_RESPONSE = ''bot_response''"
| "MESSAGE_TYPES STREAMING_CHUNK = ''streaming_chunk''"
| "MESSAGE_TYPES SESSION_CREATED = ''session_created''"
| "MESSAGE_TYPES SESSION_UPDATED = ''session_updated''"
| "MESSAGE_TYPES CACHE_HIT_METRIC = ''cache_hit_metric''"
| "MESSAGE_TYPES PROMPT_INCLUSION = ''prompt_inclusion''"
| "MESSAGE_TYPES JSON_MODE_FAILURE = ''json_mode_failure''"
| "MESSAGE_TYPES TELEGRAM_MESSAGE_RECEIVED = ''telegram_message_received''"
| "MESSAGE_TYPES PROCESS_USER_MESSAGE = ''process_user_message''"
| "MESSAGE_TYPES SEND_TELEGRAM_RESPONSE = ''send_telegram_response''"
| "MESSAGE_TYPES JSON_VALIDATION_FAILED = ''json_validation_failed''"
| "MESSAGE_TYPES STRUCTURED_RESPONSE_GENERATED = ''structured_response_generated''"
| "MESSAGE_TYPES MODE_DETECTED = ''mode_detected''"
| "MESSAGE_TYPES MODE_FALLBACK = ''mode_fallback''"
| "MESSAGE_TYPES GENERATION_PARAMETERS_USED = ''generation_parameters_used''"
| "MESSAGE_TYPES PYDANTIC_VALIDATION_SUCCESS = ''pydantic_validation_success''"
| "MESSAGE_TYPES PATTERN_DEBUG = ''pattern_debug''"

text \<open>
  An inbound \<^verbatim>\<open>ActorMessage\<close>. Its payload is a dict that \<^verbatim>\<open>handle_message\<close> reads at five
  keys; each key is a field that is \<open>None\<close> when the key is absent, typed as the parameter
  of \<^verbatim>\<open>_generate_response\<close> that receives it (\<^verbatim>\<open>chat_id\<close> is only passed on).
\<close>

record gen_payload =
  p_user_id :: "string option"
  p_chat_id :: "pyval option"
  p_text :: "string option"
  p_include_prompt :: "bool option"
  p_mode :: "string option"

record actor_message =
  sender_id :: "string option"
  message_type :: string
  payload :: gen_payload

text \<open>\<^verbatim>\<open>get_actor_system().send_message(recipient, message)\<close>, guarded as in the source.\<close>

definition send_message :: "collab \<Rightarrow> string \<Rightarrow> out_message \<Rightarrow> state \<Rightarrow> state" where
  "send_message env recipient message s =
     (if get_actor_system env then s\<lparr>outbox := outbox s @ [(recipient, message)]\<rparr> else s)"

text \<open>
  The log line \<^verbatim>\<open>response_text[:50]\<close> of \<^verbatim>\<open>handle_message\<close> raises on a value that cannot
  be sliced (for a dict, the \<open>TypeError\<close> of Python up to 3.11).
\<close>

fun slice_check :: "pyval \<Rightarrow> exn option" where
  "slice_check (PStr s) = None"
| "slice_check (PList vs) = None"
| "slice_check (PDict kvs) = Some (TypeError (''unhashable type: '' @ quoted ''slice''))"
| "slice_check v = Some (TypeError (quoted (type_name v) @ '' object is not subscriptable''))"

text \<open>
  \<^verbatim>\<open>handle_message\<close>. The three mandatory keys are read before the \<^verbatim>\<open>try\<close>, so a missing
  one raises out of the method. The handler is \<^verbatim>\<open>except Exception\<close>: inside the \<^verbatim>\<open>try\<close>
  every exception of a subclass of \<^verbatim>\<open>Exception\<close> ends in an error message to the
  recipient \<open>telegram\<close>, and any other one leaves the method with nothing sent. The
  method returns \<^verbatim>\<open>None\<close> wherever it returns.
\<close>

definition handle_message ::
  "config \<Rightarrow> collab \<Rightarrow> actor_message \<Rightarrow> state \<Rightarrow> (raised + out_message option) \<times> state" where
  "handle_message cfg env message s =
     (if message_type message \<noteq> MESSAGE_TYPES GENERATE_RESPONSE then (Inr None, s)
      else case p_user_id (payload message) of
        None \<Rightarrow> (Inl (Exception (KeyError ''user_id'')), s)
      | Some user_id \<Rightarrow>
     (case p_chat_id (payload message) of
        None \<Rightarrow> (Inl (Exception (KeyError ''chat_id'')), s)
      | Some chat_id \<Rightarrow>
     (case p_text (payload message) of
        None \<Rightarrow> (Inl (Exception (KeyError ''text'')), s)
      | Some text \<Rightarrow>
          (let include_prompt = (case p_include_prompt (payload message) of
                                   None \<Rightarrow> True | Some b \<Rightarrow> b);
               mode = (case p_mode (payload message) of None \<Rightarrow> ''base'' | Some m \<Rightarrow> m)
           in case generate_response cfg env text user_id include_prompt mode s of
                (Inr response_text, s1) \<Rightarrow>
                  (case slice_check response_text of
                     None \<Rightarrow>
                       (Inr None,
                        send_message env ''telegram''
                          \<lparr>out_sender_id = ''generation'',
                           out_message_type = MESSAGE_TYPES BOT_RESPONSE,
                           out_payload = BotResponsePayload user_id chat_id response_text\<rparr> s1)
                   | Some e \<Rightarrow>
                       (Inr None,
                        send_message env ''telegram''
                          \<lparr>out_sender_id = ''generation'',
                           out_message_type = MESSAGE_TYPES ERROR,
                           out_payload = ErrorPayload user_id chat_id e ''generation_error''\<rparr> s1))
              | (Inl (Exception e), s1) \<Rightarrow>
                  (Inr None,
                   send_message env ''telegram''
                     \<lparr>out_sender_id = ''generation'',
                      out_message_type = MESSAGE_TYPES ERROR,
                      out_payload = ErrorPayload user_id chat_id e ''generation_error''\<rparr> s1)
              | (Inl (BaseException name), s1) \<Rightarrow> (Inl (BaseException name), s1)))))"

section \<open>An example configuration\<close>

text \<open>
  Concrete collaborators on which the definitions can be run: a configuration with the
  four modes, a table in place of \<^verbatim>\<open>json.loads\<close>, a validator that rejects every payload
  of the mode \<open>expert\<close> with three errors, and a provider that answers from a script.
\<close>

definition demo_cfg :: config where
  "demo_cfg =
     \<lparr>PROMPTS =
        [''base'' \<mapsto> [''json'' \<mapsto> ''Answer in JSON.'', ''normal'' \<mapsto> ''Answer plainly.''],
         ''talk'' \<mapsto> [''json'' \<mapsto> ''Be chatty.'', ''normal'' \<mapsto> ''Be chatty.''],
         ''expert'' \<mapsto> [''json'' \<mapsto> ''TODO: expert prompt''],
         ''creative'' \<mapsto> Map.empty],
      use_json_mode = True,
      json_fallback_enabled = True,
      JSON_SCHEMA_INSTRUCTIONS = [''talk'' \<mapsto> ''Fields: response, emotional_tone.''],
      MODE_GENERATION_PARAMS =
        [''base'' \<mapsto> [''temperature'' \<mapsto> 82 / 100, ''max_tokens'' \<mapsto> 1800]],
      GENERATION_PARAMS_LOG_CONFIG = Map.empty,
      JSON_VALIDATION_CONFIG = [''max_validation_errors'' \<mapsto> 2],
      JSON_VALIDATION_LOG_FAILURES = True,
      JSON_VALIDATION_ENABLED = True,
      CACHE_HIT_LOG_INTERVAL = 10,
      DEEPSEEK_API_KEY = ''sk-demo'',
      DEEPSEEK_MODEL = ''deepseek-chat''\<rparr>"

definition demo_loads :: "string \<Rightarrow> exn + pyval" where
  \<open>demo_loads text =
     (if text = ''{"response": "hi there"}'' then
        Inr (PDict [(''response'', PStr ''hi there'')])
      else if text = ''{"answer": 42}'' then Inr (PDict [(''answer'', PInt 42)])
      else if text = ''[1, 2]'' then Inr (PList [PInt 1, PInt 2])
      else Inl (JSONDecodeError ''Expecting value: line 1 column 1 (char 0)''))\<close>

definition demo_errors :: "verror list" where
  "demo_errors =
     [\<lparr>err_loc = [LocStr ''confidence''], err_msg = ''Field required''\<rparr>,
      \<lparr>err_loc = [LocStr ''sources'', LocInt 0], err_msg = ''Input should be a valid string''\<rparr>,
      \<lparr>err_loc = [LocStr ''assumptions''], err_msg = ''Field required''\<rparr>]"

definition demo_parse :: "pyval \<Rightarrow> string \<Rightarrow> exn option" where
  "demo_parse response_dict mode =
     (if mode = ''expert'' then Some (ValidationError demo_errors) else None)"

definition scripted ::
  "(raised + chunk list) list \<Rightarrow> nat \<Rightarrow> request \<Rightarrow> raised + chunk list" where
  "scripted replies n req =
     (if n < length replies then replies ! n
      else Inl (Exception (OtherError ''APIConnectionError'' ''Connection error.'')))"

text \<open>A stream of two chunks: the text, then the usage data with 30 hits and 10 misses.\<close>

definition says :: "string \<Rightarrow> raised + chunk list" where
  "says text =
     Inr [\<lparr>delta_content = Some text, chunk_usage = None\<rparr>,
          \<lparr>delta_content = None,
           chunk_usage = Some \<lparr>usage_prompt_cache_hit_tokens = Some 30,
                                usage_prompt_cache_miss_tokens = Some 10\<rparr>\<rparr>]"

definition demo_env ::
  "(raised + chunk list) list \<Rightarrow> (base_event list \<Rightarrow> base_event \<Rightarrow> raised option)
     \<Rightarrow> collab" where
  "demo_env replies sink =
     \<lparr>json_loads = demo_loads, parse_response = demo_parse, py_str = (\<lambda>v. []),
      provider = scripted replies, sink_append = sink, get_actor_system = True\<rparr>"

text \<open>
  A sink that stores every event, one that refuses the events of one type, and one at
  which the task is cancelled while the append of an event of one type is awaited.
\<close>

definition accepting :: "base_event list \<Rightarrow> base_event \<Rightarrow> raised option" where
  "accepting stored event = None"

definition refusing :: "string \<Rightarrow> base_event list \<Rightarrow> base_event \<Rightarrow> raised option" where
  "refusing kind stored event =
     (if event_type event = kind
      then Some (Exception (OtherError ''EventStoreError'' ''append failed''))
      else None)"

definition cancelling :: "string \<Rightarrow> base_event list \<Rightarrow> base_event \<Rightarrow> raised option" where
  "cancelling kind stored event =
     (if event_type event = kind then Some (BaseException ''CancelledError'') else None)"

text \<open>The actor after \<^verbatim>\<open>__init__\<close> and \<^verbatim>\<open>initialize\<close>, at time 1000.\<close>

definition demo_breaker :: breaker where
  "demo_breaker =
     \<lparr>cb_name = ''deepseek_api'', status = Closed, failure_count = 0,
      failure_threshold = 3, recovery_timeout = 60, last_failure = 0\<rparr>"

definition demo_state :: state where
  "demo_state = (init 1000)\<lparr>circuit_breaker := Some demo_breaker\<rparr>"

text \<open>An operation that fails and one that succeeds; both count their invocations.\<close>

definition failing_op :: "nat \<Rightarrow> (raised + string) \<times> nat" where
  "failing_op n =
     (Inl (Exception (OtherError ''APITimeoutError'' ''Request timed out.'')), n + 1)"

definition succeeding_op :: "nat \<Rightarrow> (raised + string) \<times> nat" where
  "succeeding_op n = (Inr ''ok'', n + 1)"

definition demo_message :: "string \<Rightarrow> string \<Rightarrow> actor_message" where
  "demo_message kind mode =
     \<lparr>sender_id = Some ''user_session'', message_type = kind,
      payload = \<lparr>p_user_id = Some ''u1'', p_chat_id = Some (PInt 7), p_text = Some ''hello'',
                 p_include_prompt = None, p_mode = Some mode\<rparr>\<rparr>"

text \<open>The set of modes that \<^verbatim>\<open>__init__\<close> gives a counter to.\<close>

definition counted_modes :: "string set" where
  "counted_modes = {''base'', ''talk'', ''expert'', ''creative''}"

section \<open>Prompt composition: properties\<close>

text \<open>
  C6. For the mode \<open>base\<close>, for a mode that is not a key of \<open>PROMPTS\<close>, for a mode with no
  modifier (or an empty one) registered under the phase's key, and for a modifier that
  contains the marker \<open>TODO\<close>, \<open>build_mode_prompt\<close> returns the base prompt as it is:
  neither a modifier nor a schema-instruction block is appended.
\<close>

theorem build_mode_prompt_base_fallback:
  assumes "mode = ''base''
    \<or> PROMPTS cfg mode = None
    \<or> (\<exists>mode_prompts. PROMPTS cfg mode = Some mode_prompts
         \<and> (mode_prompts (if use_json then ''json'' else ''normal'') = None
            \<or> (\<exists>m. mode_prompts (if use_json then ''json'' else ''normal'') = Some m
                  \<and> (m = [] \<or> sublist ''TODO'' m))))"
  shows "build_mode_prompt cfg base_prompt mode use_json = base_prompt"
proof (cases use_json)
  case True
  with assms show ?thesis
    by (auto simp: build_mode_prompt_def Let_def split: option.splits)
next
  case False
  with assms show ?thesis
    by (auto simp: build_mode_prompt_def Let_def split: option.splits)
qed

text \<open>
  In the example configuration: \<open>expert\<close> has a placeholder modifier, \<open>poet\<close> is not
  registered, \<open>creative\<close> has no modifier for the plain phase, and \<open>base\<close> is the base
  case.
\<close>

theorem build_mode_prompt_base_fallback_witness:
  "build_mode_prompt demo_cfg ''Answer in JSON.'' ''expert'' True = ''Answer in JSON.''
   \<and> build_mode_prompt demo_cfg ''Answer in JSON.'' ''poet'' True = ''Answer in JSON.''
   \<and> build_mode_prompt demo_cfg ''Answer plainly.'' ''creative'' False = ''Answer plainly.''
   \<and> build_mode_prompt demo_cfg ''Answer in JSON.'' ''base'' True = ''Answer in JSON.''"
proof -
  have expert: "\<exists>mode_prompts. PROMPTS demo_cfg ''expert'' = Some mode_prompts
      \<and> (mode_prompts (if True then ''json'' else ''normal'') = None
         \<or> (\<exists>m. mode_prompts (if True then ''json'' else ''normal'') = Some m
               \<and> (m = [] \<or> sublist ''TODO'' m)))"
    by (simp add: demo_cfg_def sublist_code)
  have poet: "PROMPTS demo_cfg ''poet'' = None"
    by (simp add: demo_cfg_def)
  have creative: "\<exists>mode_prompts. PROMPTS demo_cfg ''creative'' = Some mode_prompts
      \<and> (mode_prompts (if False then ''json'' else ''normal'') = None
         \<or> (\<exists>m. mode_prompts (if False then ''json'' else ''normal'') = Some m
               \<and> (m = [] \<or> sublist ''TODO'' m)))"
    by (simp add: demo_cfg_def)
  show ?thesis
    using build_mode_prompt_base_fallback [of "''expert''" demo_cfg True "''Answer in JSON.''"]
      build_mode_prompt_base_fallback [of "''poet''" demo_cfg True "''Answer in JSON.''"]
      build_mode_prompt_base_fallback [of "''creative''" demo_cfg False "''Answer plainly.''"]
      build_mode_prompt_base_fallback [of "''base''" demo_cfg True "''Answer in JSON.''"]
      expert poet creative
    by blast
qed

text \<open>
  Outside those cases the modifier is appended, and in the structured phase the schema
  instructions of the mode after it.
\<close>

lemma build_mode_prompt_modified:
  assumes "mode \<noteq> ''base''" and "PROMPTS cfg mode = Some mode_prompts"
    and "mode_prompts (if use_json then ''json'' else ''normal'') = Some m"
    and "m \<noteq> []" and "\<not> sublist ''TODO'' m"
  shows "build_mode_prompt cfg base_prompt mode use_json =
           base_prompt @ [CHR 0x0A, CHR 0x0A] @ m
             @ (if use_json then
                  (case JSON_SCHEMA_INSTRUCTIONS cfg mode of
                     None \<Rightarrow> []
                   | Some instructions \<Rightarrow> [CHR 0x0A, CHR 0x0A] @ instructions)
                else [])"
  using assms by (cases use_json) (auto simp: build_mode_prompt_def Let_def split: option.splits)

section \<open>Structured extraction: properties\<close>

text \<open>
  C5. Whatever \<^verbatim>\<open>json.loads\<close> returns for the text: if it is a dict with the key
  \<open>response\<close>, \<open>extract_from_json\<close> returns the value stored under that key, or the whole
  dict when \<open>return_full_dict\<close> is set, unchanged; if it is a dict without that key, or
  not a dict at all, extraction raises the \<open>ValueError\<close> about the missing field, whatever
  else the payload holds.
\<close>

theorem extract_from_json_response_field:
  assumes "json_loads env response = Inr data"
  shows "(\<forall>kvs v. data = PDict kvs \<and> map_of kvs ''response'' = Some v \<longrightarrow>
            extract_from_json env response user_id False = Inr v
          \<and> extract_from_json env response user_id True = Inr data)
       \<and> ((\<forall>kvs. data = PDict kvs \<longrightarrow> map_of kvs ''response'' = None) \<longrightarrow>
            extract_from_json env response user_id return_full_dict
              = Inl (ValueError ''JSON doesn't contain 'response' field'' None))"
  using assms
  by (cases data) (auto simp: extract_from_json_def Let_def split: option.splits)

theorem extract_from_json_response_field_witness:
  \<open>extract_from_json (demo_env [] accepting) ''{"response": "hi there"}'' ''u1'' False
     = Inr (PStr ''hi there'')
   \<and> extract_from_json (demo_env [] accepting) ''{"response": "hi there"}'' ''u1'' True
     = Inr (PDict [(''response'', PStr ''hi there'')])
   \<and> extract_from_json (demo_env [] accepting) ''{"answer": 42}'' ''u1'' True
     = Inl (ValueError ''JSON doesn't contain 'response' field'' None)
   \<and> extract_from_json (demo_env [] accepting) ''[1, 2]'' ''u1'' False
     = Inl (ValueError ''JSON doesn't contain 'response' field'' None)\<close>
proof -
  have a: \<open>json_loads (demo_env [] accepting) ''{"response": "hi there"}''
             = Inr (PDict [(''response'', PStr ''hi there'')])\<close>
    by (simp add: demo_env_def demo_loads_def)
  have b: \<open>json_loads (demo_env [] accepting) ''{"answer": 42}''
             = Inr (PDict [(''answer'', PInt 42)])\<close>
    by (simp add: demo_env_def demo_loads_def)
  have c: \<open>json_loads (demo_env [] accepting) ''[1, 2]'' = Inr (PList [PInt 1, PInt 2])\<close>
    by (simp add: demo_env_def demo_loads_def)
  show ?thesis
    using extract_from_json_response_field [OF a, of "''u1''"]
      extract_from_json_response_field [OF b, of "''u1''" True]
      extract_from_json_response_field [OF c, of "''u1''" False]
    by simp
qed

text \<open>A failure of \<^verbatim>\<open>json.loads\<close> passes through unchanged.\<close>

lemma extract_from_json_unparseable:
  "json_loads env response = Inl e \<Longrightarrow>
     extract_from_json env response user_id return_full_dict = Inl e"
  by (simp add: extract_from_json_def)

section \<open>Cache metrics: properties\<close>

text \<open>
  C8. Every call of \<open>log_cache_metrics\<close> increments the generation counter. The only
  event it can append is a \<open>CacheHitMetricEvent\<close> whose rate is
  \<open>hit_tokens / (hit_tokens + miss_tokens)\<close>. When the two counts add up to zero it appends
  nothing and leaves the accumulator of hit rates as it was; when they add up to a
  positive number, the log interval is not zero and the sink stores the event, exactly that
  event is appended and the rate is added to the accumulator.
\<close>

theorem log_cache_metrics_event:
  "generation_count (snd (log_cache_metrics cfg env hit_tokens miss_tokens s))
     = generation_count s + 1
   \<and> (events (snd (log_cache_metrics cfg env hit_tokens miss_tokens s)) = events s
      \<or> events (snd (log_cache_metrics cfg env hit_tokens miss_tokens s))
          = events s @ [\<lparr>stream_id = ''metrics'', event_type = ''CacheHitMetricEvent'',
                         ev_data = CacheHitData hit_tokens miss_tokens
                           (of_int hit_tokens / of_int (hit_tokens + miss_tokens))\<rparr>])
   \<and> (hit_tokens + miss_tokens = 0 \<longrightarrow>
        log_cache_metrics cfg env hit_tokens miss_tokens s
          = (Inr (), s\<lparr>generation_count := generation_count s + 1\<rparr>))
   \<and> (0 < hit_tokens + miss_tokens \<and> CACHE_HIT_LOG_INTERVAL cfg \<noteq> 0
        \<and> sink_append env (events s)
             \<lparr>stream_id = ''metrics'', event_type = ''CacheHitMetricEvent'',
              ev_data = CacheHitData hit_tokens miss_tokens
                (of_int hit_tokens / of_int (hit_tokens + miss_tokens))\<rparr> = None \<longrightarrow>
        log_cache_metrics cfg env hit_tokens miss_tokens s
          = (Inr (),
             s\<lparr>generation_count := generation_count s + 1,
               total_cache_hits := total_cache_hits s
                 + of_int hit_tokens / of_int (hit_tokens + miss_tokens),
               events := events s
                 @ [\<lparr>stream_id = ''metrics'', event_type = ''CacheHitMetricEvent'',
                     ev_data = CacheHitData hit_tokens miss_tokens
                       (of_int hit_tokens / of_int (hit_tokens + miss_tokens))\<rparr>]\<rparr>))"
  by (simp add: log_cache_metrics_def append_event_def Let_def split: option.splits)

theorem log_cache_metrics_event_witness:
  "log_cache_metrics demo_cfg (demo_env [] accepting) 0 0 demo_state
     = (Inr (), demo_state\<lparr>generation_count := 1\<rparr>)
   \<and> log_cache_metrics demo_cfg (demo_env [] accepting) 30 10 demo_state
     = (Inr (),
        demo_state\<lparr>generation_count := 1, total_cache_hits := 3 / 4,
          events := [\<lparr>stream_id = ''metrics'', event_type = ''CacheHitMetricEvent'',
                      ev_data = CacheHitData 30 10 (3 / 4)\<rparr>]\<rparr>)"
  using log_cache_metrics_event [of demo_cfg "demo_env [] accepting" 0 0 demo_state]
    log_cache_metrics_event [of demo_cfg "demo_env [] accepting" 30 10 demo_state]
  by (simp add: demo_cfg_def demo_env_def accepting_def demo_state_def init_def)

section \<open>Message dispatch: properties\<close>

text \<open>
  C10. A message whose type is not \<open>generate_response\<close> makes \<open>handle_message\<close> return
  \<^verbatim>\<open>None\<close> and leaves everything as it was: the counters of the actor, its breaker, the
  requests made, the events stored and the messages sent.
\<close>

theorem handle_message_other_type_ignored:
  assumes "message_type message \<noteq> MESSAGE_TYPES GENERATE_RESPONSE"
  shows "handle_message cfg env message s = (Inr None, s)"
  using assms by (simp add: handle_message_def)

theorem handle_message_other_type_ignored_witness:
  "handle_message demo_cfg (demo_env [] accepting) (demo_message ''ping'' ''base'') demo_state
     = (Inr None, demo_state)"
proof -
  have "message_type (demo_message ''ping'' ''base'') \<noteq> MESSAGE_TYPES GENERATE_RESPONSE"
    by (simp add: demo_message_def)
  then show ?thesis by (rule handle_message_other_type_ignored)
qed

section \<open>Schema validation: properties\<close>

text \<open>The truncation block, for a cap that is not negative.\<close>

lemma limit_errors_cap:
  assumes "JSON_VALIDATION_CONFIG cfg ''max_validation_errors'' = Some cap
             \<or> JSON_VALIDATION_CONFIG cfg ''max_validation_errors'' = None \<and> cap = 5"
    and "0 \<le> cap"
  shows "limit_errors cfg errors =
           (if int (length errors) > cap then
              take (nat cap) errors
                @ [''... and '' @ str_int (int (length errors) - cap) @ '' more errors'']
            else errors)"
  using assms by (auto simp: limit_errors_def py_prefix_def)

text \<open>
  C7. When \<open>parse_response\<close> raises a \<open>ValidationError\<close> (directly, or as the cause of a
  \<open>ValueError\<close>) and the configured cap (5 when none is configured) is not negative,
  \<open>validate_structured_response\<close> returns the formatted errors: more of them than the cap
  are cut to the first \<open>cap\<close> in order, followed by the one entry that only counts the
  rest; a list within the cap is returned whole.
\<close>

theorem validate_structured_response_error_cap:
  assumes "JSON_VALIDATION_ENABLED cfg"
    and "parse_response env response_dict mode = Some e"
    and "e = ValidationError errs \<or> e = ValueError m (Some (ValidationError errs))"
    and "JSON_VALIDATION_CONFIG cfg ''max_validation_errors'' = Some cap
           \<or> JSON_VALIDATION_CONFIG cfg ''max_validation_errors'' = None \<and> cap = 5"
    and "0 \<le> cap"
  shows "validate_structured_response cfg env response_dict mode =
           Inr (False,
             if int (length errs) > cap then
               take (nat cap) (map format_error errs)
                 @ [''... and '' @ str_int (int (length errs) - cap) @ '' more errors'']
             else map format_error errs)"
  using assms(1-3) limit_errors_cap [OF assms(4,5), of "map format_error errs"]
  by (auto simp: validate_structured_response_def)


text \<open>Three errors under a cap of 2, and under the default cap of 5.\<close>

theorem validate_structured_response_error_cap_witness:
  "validate_structured_response demo_cfg (demo_env [] accepting)
       (PDict [(''response'', PStr ''hi there'')]) ''expert''
     = Inr (False,
         [''confidence: Field required'', ''sources.0: Input should be a valid string'',
          ''... and 1 more errors''])
   \<and> validate_structured_response (demo_cfg\<lparr>JSON_VALIDATION_CONFIG := Map.empty\<rparr>)
       (demo_env [] accepting) (PDict [(''response'', PStr ''hi there'')]) ''expert''
     = Inr (False,
         [''confidence: Field required'', ''sources.0: Input should be a valid string'',
          ''assumptions: Field required''])"
proof -
  have enabled: "JSON_VALIDATION_ENABLED demo_cfg"
     "JSON_VALIDATION_ENABLED (demo_cfg\<lparr>JSON_VALIDATION_CONFIG := Map.empty\<rparr>)"
    by (simp_all add: demo_cfg_def)
  have fails: "parse_response (demo_env [] accepting)
      (PDict [(''response'', PStr ''hi there'')]) ''expert'' = Some (ValidationError demo_errors)"
    by (simp add: demo_env_def demo_parse_def)
  have cap2: "JSON_VALIDATION_CONFIG demo_cfg ''max_validation_errors'' = Some 2
      \<or> JSON_VALIDATION_CONFIG demo_cfg ''max_validation_errors'' = None \<and> (2::int) = 5"
    by (simp add: demo_cfg_def)
  have cap5: "JSON_VALIDATION_CONFIG (demo_cfg\<lparr>JSON_VALIDATION_CONFIG := Map.empty\<rparr>)
        ''max_validation_errors'' = Some 5
      \<or> JSON_VALIDATION_CONFIG (demo_cfg\<lparr>JSON_VALIDATION_CONFIG := Map.empty\<rparr>)
        ''max_validation_errors'' = None \<and> (5::int) = 5"
    by simp
  have digits: "str_int 1 = ''1''"
    by (simp add: str_int_def str_nat.simps)
  have formatted: "map format_error demo_errors =
      [''confidence: Field required'', ''sources.0: Input should be a valid string'',
       ''assumptions: Field required'']"
    by (simp add: demo_errors_def format_error_def str_int_def str_nat.simps)
  note capped = validate_structured_response_error_cap
      [OF enabled(1) fails disjI1 [OF refl] cap2]
  note uncapped = validate_structured_response_error_cap
      [OF enabled(2) fails disjI1 [OF refl] cap5]
  show ?thesis
    using capped uncapped digits formatted by (simp add: demo_errors_def)
qed

section \<open>Circuit breaker: properties\<close>

text \<open>An Open breaker before its deadline rejects the call and leaves everything alone.\<close>

lemma breaker_call_rejected:
  assumes "status b = Open" and "now < last_failure b + recovery_timeout b"
  shows "breaker_call b now operation s = (Inl (Exception BreakerOpenError), b, s)"
  using assms by (simp add: breaker_call_def breaker_admit_def)

text \<open>At or after the deadline the operation runs once, as the trial.\<close>

lemma breaker_call_trial:
  assumes "status b = Open" and "last_failure b + recovery_timeout b \<le> now"
  shows "breaker_call b now operation s =
           (case operation s of
              (Inl e, s1) \<Rightarrow> (Inl e, b\<lparr>status := Open, last_failure := now\<rparr>, s1)
            | (Inr v, s1) \<Rightarrow> (Inr v, b\<lparr>status := Closed, failure_count := 0\<rparr>, s1))"
  using assms
  by (simp add: breaker_call_def breaker_admit_def breaker_on_failure_def
      breaker_on_success_def split: prod.splits sum.splits)

lemma breaker_call_closed_failure:
  assumes "status b = Closed" and "operation s = (Inl e, s1)"
  shows "breaker_call b now operation s =
           (Inl e,
            (if failure_threshold b \<le> failure_count b + 1
             then b\<lparr>status := Open, failure_count := failure_count b + 1, last_failure := now\<rparr>
             else b\<lparr>failure_count := failure_count b + 1\<rparr>),
            s1)"
  using assms
  by (simp add: breaker_call_def breaker_admit_def breaker_on_failure_def Let_def)

text \<open>
  A run of failing calls through a Closed breaker, as long as the count stays within the
  threshold: induction over the calls, for any count the breaker starts with.
\<close>

lemma breaker_calls_failures:
  assumes "\<forall>c \<in> set calls. \<forall>s. isl (fst (snd c s))"
    and "status b = Closed"
    and "failure_count b + length calls \<le> failure_threshold b"
    and "breaker_calls b calls s = (rs, b', s')"
  shows "failure_threshold b' = failure_threshold b
       \<and> recovery_timeout b' = recovery_timeout b
       \<and> failure_count b' = failure_count b + length calls
       \<and> (failure_count b + length calls < failure_threshold b \<longrightarrow> status b' = Closed)
       \<and> (failure_count b + length calls = failure_threshold b \<and> calls \<noteq> [] \<longrightarrow>
            status b' = Open \<and> last_failure b' = fst (last calls))"
  using assms
proof (induction calls arbitrary: b s rs)
  case Nil
  then show ?case by simp
next
  case (Cons c calls)
  obtain now operation where c: "c = (now, operation)" by (cases c)
  from Cons.prems(1) c obtain e s1 where op: "operation s = (Inl e, s1)"
    by (metis fst_conv isl_def list.set_intros(1) snd_conv surjective_pairing)
  let ?b1 = "if failure_threshold b \<le> failure_count b + 1
             then b\<lparr>status := Open, failure_count := failure_count b + 1, last_failure := now\<rparr>
             else b\<lparr>failure_count := failure_count b + 1\<rparr>"
  have step: "breaker_call b now operation s = (Inl e, ?b1, s1)"
    using Cons.prems(2) op by (rule breaker_call_closed_failure)
  show ?case
  proof (cases calls)
    case Nil
    with Cons.prems c step show ?thesis by (auto split: if_splits)
  next
    case (Cons c2 rest)
    with Cons.prems(3) have below: "\<not> failure_threshold b \<le> failure_count b + 1" by simp
    then have b1: "?b1 = b\<lparr>failure_count := failure_count b + 1\<rparr>" by simp
    obtain rs1 where rest: "breaker_calls (b\<lparr>failure_count := failure_count b + 1\<rparr>) calls s1 = (rs1, b', s')"
      using Cons.prems(4) c step b1 by (auto split: prod.splits)
    have "\<forall>c \<in> set calls. \<forall>s. isl (fst (snd c s))" using Cons.prems(1) by simp
    from Cons.IH [OF this _ _ rest] Cons.prems(2,3) Cons
    show ?thesis by auto
  qed
qed


lemma call_api_rejected:
  assumes "circuit_breaker st = Some b" and "status b = Open"
    and "clock st < last_failure b + recovery_timeout b"
  shows "call_api cfg env messages use_json mode st = (Inl (Exception BreakerOpenError), st)"
  using assms by (simp add: call_api_def breaker_call_rejected)

text \<open>
  C4. The breaker of section 4.1 of the specification, which \<open>initialize\<close> creates with a
  threshold of 3 and a recovery timeout of 60 and through which \<open>call_api\<close> makes every
  provider call. From Closed with no failure counted, fewer consecutive failures than the
  threshold leave it Closed, and exactly \<open>threshold\<close> of them leave it Open with the time
  of the last one recorded. While Open and before \<open>last_failure + recovery_timeout\<close>, a
  call fails with \<open>BreakerOpenError\<close> and neither the operation nor the actor's state is
  touched. At or after that deadline the call is admitted as HalfOpen and the operation
  runs once: its success closes the breaker and resets the counter to zero, its failure
  opens the breaker again with the new timestamp.
\<close>

theorem breaker_state_machine:
  "(status b = Closed \<and> failure_count b = 0
      \<and> (\<forall>c \<in> set calls. \<forall>s. isl (fst (snd c s)))
      \<and> length calls \<le> failure_threshold b
      \<and> breaker_calls b calls s = (rs, b', s') \<longrightarrow>
        (length calls < failure_threshold b \<longrightarrow> status b' = Closed)
      \<and> (length calls = failure_threshold b \<and> calls \<noteq> [] \<longrightarrow>
           status b' = Open \<and> last_failure b' = fst (last calls)))
   \<and> (status b = Open \<and> now < last_failure b + recovery_timeout b \<longrightarrow>
        breaker_call b now operation s = (Inl (Exception BreakerOpenError), b, s))
   \<and> (status b = Open \<and> last_failure b + recovery_timeout b \<le> now \<longrightarrow>
        breaker_admit b now = Some (b\<lparr>status := HalfOpen\<rparr>)
      \<and> breaker_call b now operation s =
          (case operation s of
             (Inl e, s1) \<Rightarrow> (Inl e, b\<lparr>status := Open, last_failure := now\<rparr>, s1)
           | (Inr v, s1) \<Rightarrow> (Inr v, b\<lparr>status := Closed, failure_count := 0\<rparr>, s1)))
   \<and> breaker_on_success (b\<lparr>status := HalfOpen\<rparr>) = b\<lparr>status := Closed, failure_count := 0\<rparr>
   \<and> breaker_on_failure (b\<lparr>status := HalfOpen\<rparr>) now = b\<lparr>status := Open, last_failure := now\<rparr>
   \<and> (initialize cfg st = Inr st' \<longrightarrow>
        circuit_breaker st' =
          Some \<lparr>cb_name = ''deepseek_api'', status = Closed, failure_count = 0,
                failure_threshold = 3, recovery_timeout = 60, last_failure = 0\<rparr>)
   \<and> (circuit_breaker st = Some b \<and> status b = Open
        \<and> clock st < last_failure b + recovery_timeout b \<longrightarrow>
        call_api cfg env messages use_json mode st = (Inl (Exception BreakerOpenError), st))"
proof -
  have threshold: "status b = Closed \<and> failure_count b = 0
      \<and> (\<forall>c \<in> set calls. \<forall>s. isl (fst (snd c s)))
      \<and> length calls \<le> failure_threshold b
      \<and> breaker_calls b calls s = (rs, b', s') \<longrightarrow>
        (length calls < failure_threshold b \<longrightarrow> status b' = Closed)
      \<and> (length calls = failure_threshold b \<and> calls \<noteq> [] \<longrightarrow>
           status b' = Open \<and> last_failure b' = fst (last calls))"
    using breaker_calls_failures [of calls b s rs b' s'] by simp
  have admit: "status b = Open \<and> last_failure b + recovery_timeout b \<le> now \<longrightarrow>
      breaker_admit b now = Some (b\<lparr>status := HalfOpen\<rparr>)"
    by (simp add: breaker_admit_def)
  have init: "initialize cfg st = Inr st' \<longrightarrow>
      circuit_breaker st' =
        Some \<lparr>cb_name = ''deepseek_api'', status = Closed, failure_count = 0,
              failure_threshold = 3, recovery_timeout = 60, last_failure = 0\<rparr>"
    by (auto simp: initialize_def split: if_splits)
  have outcome: "breaker_on_success (b\<lparr>status := HalfOpen\<rparr>) = b\<lparr>status := Closed, failure_count := 0\<rparr>"
    "breaker_on_failure (b\<lparr>status := HalfOpen\<rparr>) now = b\<lparr>status := Open, last_failure := now\<rparr>"
    by (simp_all add: breaker_on_success_def breaker_on_failure_def)
  show ?thesis
    using threshold admit init outcome
      breaker_call_rejected [of b now operation s]
      breaker_call_trial [of b now operation s]
      call_api_rejected [of st b cfg env messages use_json mode]
    by blast
qed

text \<open>
  With the threshold 3 and the timeout 60: two failures, three failures, then a call one
  second before the deadline and calls at the deadline. The operations count how often
  they run.
\<close>

theorem breaker_state_machine_witness:
  "breaker_calls demo_breaker [(1000, failing_op), (1001, failing_op)] 0
     = ([Inl (Exception (OtherError ''APITimeoutError'' ''Request timed out.'')),
         Inl (Exception (OtherError ''APITimeoutError'' ''Request timed out.''))],
        demo_breaker\<lparr>failure_count := 2\<rparr>, 2)
   \<and> breaker_calls demo_breaker [(1000, failing_op), (1001, failing_op), (1002, failing_op)] 0
     = ([Inl (Exception (OtherError ''APITimeoutError'' ''Request timed out.'')),
         Inl (Exception (OtherError ''APITimeoutError'' ''Request timed out.'')),
         Inl (Exception (OtherError ''APITimeoutError'' ''Request timed out.''))],
        demo_breaker\<lparr>status := Open, failure_count := 3, last_failure := 1002\<rparr>, 3)
   \<and> breaker_call (demo_breaker\<lparr>status := Open, failure_count := 3, last_failure := 1002\<rparr>)
        1061 succeeding_op 3
     = (Inl (Exception BreakerOpenError),
        demo_breaker\<lparr>status := Open, failure_count := 3, last_failure := 1002\<rparr>, 3)
   \<and> breaker_call (demo_breaker\<lparr>status := Open, failure_count := 3, last_failure := 1002\<rparr>)
        1062 succeeding_op 3
     = (Inr ''ok'', demo_breaker\<lparr>status := Closed, failure_count := 0, last_failure := 1002\<rparr>, 4)
   \<and> breaker_call (demo_breaker\<lparr>status := Open, failure_count := 3, last_failure := 1002\<rparr>)
        1062 failing_op 3
     = (Inl (Exception (OtherError ''APITimeoutError'' ''Request timed out.'')),
        demo_breaker\<lparr>status := Open, failure_count := 3, last_failure := 1062\<rparr>, 4)"
proof -
  let ?open = "demo_breaker\<lparr>status := Open, failure_count := 3, last_failure := 1002\<rparr>"
  have two: "breaker_calls demo_breaker [(1000, failing_op), (1001, failing_op)] 0
     = ([Inl (Exception (OtherError ''APITimeoutError'' ''Request timed out.'')),
         Inl (Exception (OtherError ''APITimeoutError'' ''Request timed out.''))],
        demo_breaker\<lparr>failure_count := 2\<rparr>, 2)"
    by (simp add: breaker_call_def breaker_admit_def breaker_on_failure_def demo_breaker_def
        failing_op_def Let_def)
  have three: "breaker_calls demo_breaker
       [(1000, failing_op), (1001, failing_op), (1002, failing_op)] 0
     = ([Inl (Exception (OtherError ''APITimeoutError'' ''Request timed out.'')),
         Inl (Exception (OtherError ''APITimeoutError'' ''Request timed out.'')),
         Inl (Exception (OtherError ''APITimeoutError'' ''Request timed out.''))], ?open, 3)"
    by (simp add: breaker_call_def breaker_admit_def breaker_on_failure_def demo_breaker_def
        failing_op_def Let_def)
  have closed: "status demo_breaker = Closed" "failure_count demo_breaker = 0"
      "failure_threshold demo_breaker = 3"
    by (simp_all add: demo_breaker_def)
  have fail: "\<forall>c \<in> set [(1000::int, failing_op), (1001, failing_op), (1002, failing_op)].
      \<forall>s. isl (fst (snd c s))"
    by (simp add: failing_op_def)
  have opened: "status ?open = Open" "last_failure ?open + recovery_timeout ?open = 1062"
    by (simp_all add: demo_breaker_def)
  show ?thesis
    using two three closed fail opened
      breaker_state_machine [where b = demo_breaker
        and calls = "[(1000, failing_op), (1001, failing_op), (1002, failing_op)]"
        and s = 0 and b' = ?open and s' = 3]
      breaker_state_machine [where b = ?open and now = 1061 and operation = succeeding_op
        and s = 3]
      breaker_state_machine [where b = ?open and now = 1062 and operation = succeeding_op
        and s = 3]
      breaker_state_machine [where b = ?open and now = 1062 and operation = failing_op
        and s = 3]
    by (simp add: succeeding_op_def failing_op_def)
qed

section \<open>Provider calls: what they leave untouched\<close>

text \<open>
  Frame lemmas for the provider call, used by the properties of \<open>generate_response\<close>:
  a call changes neither the failure counter nor the per-mode counters nor the outbox, it
  appends no event but cache metrics, and a call that returns text has sent exactly one
  request with the given messages.
\<close>

lemma append_event_cases:
  "append_event env event s = (r, s1) \<Longrightarrow>
     (r = Inr () \<and> s1 = s\<lparr>events := events s @ [event]\<rparr> \<and> sink_append env (events s) event = None)
     \<or> (\<exists>e. r = Inl e \<and> s1 = s \<and> sink_append env (events s) event = Some e)"
  by (auto simp: append_event_def split: option.splits)

lemma log_cache_metrics_frame:
  assumes "log_cache_metrics cfg env hit_tokens miss_tokens s = (r, s1)"
  shows "json_failures s1 = json_failures s
       \<and> mode_success_counts s1 = mode_success_counts s
       \<and> mode_failure_counts s1 = mode_failure_counts s
       \<and> circuit_breaker s1 = circuit_breaker s
       \<and> requests s1 = requests s
       \<and> outbox s1 = outbox s
       \<and> clock s1 = clock s
       \<and> filter (\<lambda>ev. event_type ev \<noteq> ''CacheHitMetricEvent'') (events s1)
           = filter (\<lambda>ev. event_type ev \<noteq> ''CacheHitMetricEvent'') (events s)"
  using assms
  by (auto simp: log_cache_metrics_def append_event_def Let_def split: if_splits option.splits)

lemma api_call_frame:
  assumes "api_call cfg env messages use_json mode s = (r, s1)"
  shows "json_failures s1 = json_failures s
       \<and> mode_success_counts s1 = mode_success_counts s
       \<and> mode_failure_counts s1 = mode_failure_counts s
       \<and> circuit_breaker s1 = circuit_breaker s
       \<and> outbox s1 = outbox s
       \<and> clock s1 = clock s
       \<and> filter (\<lambda>ev. event_type ev \<noteq> ''CacheHitMetricEvent'') (events s1)
           = filter (\<lambda>ev. event_type ev \<noteq> ''CacheHitMetricEvent'') (events s)"
proof (cases "MODE_GENERATION_PARAMS cfg ''base''")
  case None
  with assms show ?thesis by (simp add: api_call_def)
next
  case (Some base_params)
  define kwargs where "kwargs =
     \<lparr>kw_model = DEEPSEEK_MODEL cfg, kw_messages = messages,
      kw_temperature = get_default (get_default (MODE_GENERATION_PARAMS cfg) mode base_params) ''temperature'' (82 / 100),
      kw_top_p = get_default (get_default (MODE_GENERATION_PARAMS cfg) mode base_params) ''top_p'' (85 / 100),
      kw_max_tokens = get_default (get_default (MODE_GENERATION_PARAMS cfg) mode base_params) ''max_tokens'' 1800,
      kw_frequency_penalty = get_default (get_default (MODE_GENERATION_PARAMS cfg) mode base_params) ''frequency_penalty'' (4 / 10),
      kw_presence_penalty = get_default (get_default (MODE_GENERATION_PARAMS cfg) mode base_params) ''presence_penalty'' (65 / 100),
      kw_stream = True,
      kw_response_format = (if use_json then Some ''json_object'' else None)\<rparr>"
  show ?thesis
  proof (cases "provider env (length (requests s)) kwargs")
    case (Inl e)
    with assms Some show ?thesis
      by (auto simp: api_call_def Let_def kwargs_def)
  next
    case (Inr chunks)
    obtain full h m where cc: "collect_chunks chunks ([], 0, 0) = (full, h, m)"
      by (cases "collect_chunks chunks ([], 0, 0)") auto
    obtain r2 s2 where lc: "log_cache_metrics cfg env h m (s\<lparr>requests := requests s @ [kwargs]\<rparr>) = (r2, s2)"
      by (cases "log_cache_metrics cfg env h m (s\<lparr>requests := requests s @ [kwargs]\<rparr>)") auto
    from assms Some Inr cc lc have "s1 = s2"
      by (auto simp: api_call_def Let_def kwargs_def split: sum.splits)
    with log_cache_metrics_frame [OF lc] show ?thesis by simp
  qed
qed

lemma api_call_success:
  assumes "api_call cfg env messages use_json mode s = (Inr response, s1)"
  shows "\<exists>req. requests s1 = requests s @ [req] \<and> kw_messages req = messages
           \<and> kw_response_format req = (if use_json then Some ''json_object'' else None)
           \<and> kw_stream req"
proof (cases "MODE_GENERATION_PARAMS cfg ''base''")
  case None
  with assms show ?thesis by (simp add: api_call_def)
next
  case (Some base_params)
  define kwargs where "kwargs =
     \<lparr>kw_model = DEEPSEEK_MODEL cfg, kw_messages = messages,
      kw_temperature = get_default (get_default (MODE_GENERATION_PARAMS cfg) mode base_params) ''temperature'' (82 / 100),
      kw_top_p = get_default (get_default (MODE_GENERATION_PARAMS cfg) mode base_params) ''top_p'' (85 / 100),
      kw_max_tokens = get_default (get_default (MODE_GENERATION_PARAMS cfg) mode base_params) ''max_tokens'' 1800,
      kw_frequency_penalty = get_default (get_default (MODE_GENERATION_PARAMS cfg) mode base_params) ''frequency_penalty'' (4 / 10),
      kw_presence_penalty = get_default (get_default (MODE_GENERATION_PARAMS cfg) mode base_params) ''presence_penalty'' (65 / 100),
      kw_stream = True,
      kw_response_format = (if use_json then Some ''json_object'' else None)\<rparr>"
  show ?thesis
  proof (cases "provider env (length (requests s)) kwargs")
    case (Inl e)
    with assms Some show ?thesis
      by (auto simp: api_call_def Let_def kwargs_def)
  next
    case (Inr chunks)
    obtain full h m where cc: "collect_chunks chunks ([], 0, 0) = (full, h, m)"
      by (cases "collect_chunks chunks ([], 0, 0)") auto
    obtain r2 s2 where lc: "log_cache_metrics cfg env h m (s\<lparr>requests := requests s @ [kwargs]\<rparr>) = (r2, s2)"
      by (cases "log_cache_metrics cfg env h m (s\<lparr>requests := requests s @ [kwargs]\<rparr>)") auto
    from assms Some Inr cc lc have "s1 = s2"
      by (auto simp: api_call_def Let_def kwargs_def split: sum.splits)
    with log_cache_metrics_frame [OF lc] have "requests s1 = requests s @ [kwargs]" by simp
    then show ?thesis by (intro exI [of _ kwargs]) (simp add: kwargs_def)
  qed
qed

lemma call_api_frame:
  assumes "call_api cfg env messages use_json mode s = (r, s1)"
  shows "json_failures s1 = json_failures s
       \<and> mode_success_counts s1 = mode_success_counts s
       \<and> mode_failure_counts s1 = mode_failure_counts s
       \<and> outbox s1 = outbox s
       \<and> clock s1 = clock s
       \<and> filter (\<lambda>ev. event_type ev \<noteq> ''CacheHitMetricEvent'') (events s1)
           = filter (\<lambda>ev. event_type ev \<noteq> ''CacheHitMetricEvent'') (events s)"
proof (cases "circuit_breaker s")
  case None
  with assms show ?thesis by (simp add: call_api_def)
next
  case (Some b)
  show ?thesis
  proof (cases "breaker_admit b (clock s)")
    case None
    with assms Some show ?thesis by (auto simp: call_api_def breaker_call_def)
  next
    case admitted: (Some b1)
    obtain r2 s2 where ac: "api_call cfg env messages use_json mode s = (r2, s2)"
      by (cases "api_call cfg env messages use_json mode s") auto
    from assms Some admitted ac obtain b2 where "s1 = s2\<lparr>circuit_breaker := Some b2\<rparr>"
      by (auto simp: call_api_def breaker_call_def split: sum.splits)
    with api_call_frame [OF ac] show ?thesis by simp
  qed
qed

lemma call_api_success:
  assumes "call_api cfg env messages use_json mode s = (Inr response, s1)"
  shows "\<exists>req. requests s1 = requests s @ [req] \<and> kw_messages req = messages
           \<and> kw_response_format req = (if use_json then Some ''json_object'' else None)
           \<and> kw_stream req"
proof (cases "circuit_breaker s")
  case None
  with assms show ?thesis by (simp add: call_api_def)
next
  case (Some b)
  show ?thesis
  proof (cases "breaker_admit b (clock s)")
    case None
    with assms Some show ?thesis by (auto simp: call_api_def breaker_call_def)
  next
    case admitted: (Some b1)
    obtain r2 s2 where ac: "api_call cfg env messages use_json mode s = (r2, s2)"
      by (cases "api_call cfg env messages use_json mode s") auto
    from assms Some admitted ac obtain b2
      where "s1 = s2\<lparr>circuit_breaker := Some b2\<rparr>" and "r2 = Inr response"
      by (auto simp: call_api_def breaker_call_def split: sum.splits)
    with api_call_success [of cfg env messages use_json mode s response s2] ac
    show ?thesis by simp
  qed
qed

section \<open>The generation protocol: properties\<close>

text \<open>The definitions that are unfolded when an example is run.\<close>

lemmas demo_eval =
  call_api_def breaker_call_def breaker_admit_def breaker_on_success_def
  breaker_on_failure_def api_call_def log_cache_metrics_def append_event_def
  demo_cfg_def demo_env_def demo_state_def demo_breaker_def says_def scripted_def
  accepting_def refusing_def cancelling_def get_default_def Let_def init_def format_context_def
  build_mode_prompt_def demo_loads_def

lemmas generate_eval =
  generate_response_def first_attempt_def structured_result_def plain_result_def
  extract_from_json_def validate_and_count_def validate_structured_response_def
  log_parameters_used_def log_json_failure_def log_validation_failure_def
  demo_parse_def mode_counts_init_def

subsection \<open>Fallback after malformed JSON\<close>

text \<open>When the text does not parse, the attempt ends in the parser's exception.\<close>

lemma first_attempt_unparseable:
  assumes "call_api cfg env messages True mode s = (Inr response, s1)"
    and "json_loads env response = Inl e"
  shows "first_attempt cfg env messages True user_id mode s
           = (Inl (Exception e), Some response, s1)"
  using assms
  by (simp add: first_attempt_def structured_result_def extract_from_json_unparseable)

text \<open>
  C3. Structured mode and fallback are enabled, the first provider call returns a text
  that \<^verbatim>\<open>json.loads\<close> rejects with a \<open>JSONDecodeError\<close>, the sink stores the
  \<open>JSONModeFailureEvent\<close> and the second provider call returns a text. Then
  \<open>generate_response\<close> returns that second text as it is (nothing is assumed about how it
  would parse), the failure counter has gone up by one, exactly two requests have reached
  the provider, the first with the JSON response format and the second with the messages
  composed with \<open>force_normal\<close> and without a response format, and apart from cache
  metrics the only event appended is the one \<open>JSONModeFailureEvent\<close>.
\<close>

theorem generate_response_fallback:
  assumes "use_json_mode cfg" and "json_fallback_enabled cfg"
    and "format_context cfg text include_prompt False mode = Inr messages"
    and "format_context cfg text include_prompt True mode = Inr fallback_messages"
    and "call_api cfg env messages True mode s = (Inr response, s1)"
    and "json_loads env response = Inl (JSONDecodeError msg)"
    and "failure_event = \<lparr>stream_id = ''user_'' @ user_id,
           event_type = ''JSONModeFailureEvent'', ev_data = JSONFailureData user_id msg\<rparr>"
    and "sink_append env (events s1) failure_event = None"
    and "call_api cfg env fallback_messages False mode
           (s1\<lparr>json_failures := json_failures s1 + 1, events := events s1 @ [failure_event]\<rparr>)
         = (Inr fallback_response, s2)"
  shows "generate_response cfg env text user_id include_prompt mode s
           = (Inr (PStr fallback_response), s2)
       \<and> json_failures s2 = json_failures s + 1
       \<and> (\<exists>first retry. requests s2 = requests s @ [first, retry]
             \<and> kw_messages first = messages
             \<and> kw_response_format first = Some ''json_object''
             \<and> kw_messages retry = fallback_messages
             \<and> kw_response_format retry = None)
       \<and> filter (\<lambda>ev. event_type ev \<noteq> ''CacheHitMetricEvent'') (events s2)
           = filter (\<lambda>ev. event_type ev \<noteq> ''CacheHitMetricEvent'') (events s) @ [failure_event]"
proof -
  let ?s' = "s1\<lparr>json_failures := json_failures s1 + 1, events := events s1 @ [failure_event]\<rparr>"
  have attempt: "first_attempt cfg env messages True user_id mode s
      = (Inl (Exception (JSONDecodeError msg)), Some response, s1)"
    using assms(5,6) by (rule first_attempt_unparseable)
  have logged: "log_json_failure env user_id msg (s1\<lparr>json_failures := json_failures s1 + 1\<rparr>)
      = (Inr (), ?s')"
    using assms(7,8) by (simp add: log_json_failure_def append_event_def)
  have result: "generate_response cfg env text user_id include_prompt mode s
      = (Inr (PStr fallback_response), s2)"
    using assms(1-4,9) attempt logged by (simp add: generate_response_def Let_def)
  note f1 = call_api_frame [OF assms(5)] and f2 = call_api_frame [OF assms(9)]
  from call_api_success [OF assms(5)] obtain first
    where first: "requests s1 = requests s @ [first]" "kw_messages first = messages"
      "kw_response_format first = Some ''json_object''" by auto
  from call_api_success [OF assms(9)] obtain retry
    where retry: "requests s2 = requests ?s' @ [retry]" "kw_messages retry = fallback_messages"
      "kw_response_format retry = None" by auto
  have reqs: "\<exists>first retry. requests s2 = requests s @ [first, retry]
             \<and> kw_messages first = messages
             \<and> kw_response_format first = Some ''json_object''
             \<and> kw_messages retry = fallback_messages
             \<and> kw_response_format retry = None"
    using first retry by (intro exI [of _ first] exI [of _ retry]) simp
  have evs: "filter (\<lambda>ev. event_type ev \<noteq> ''CacheHitMetricEvent'') (events s2)
           = filter (\<lambda>ev. event_type ev \<noteq> ''CacheHitMetricEvent'') (events s) @ [failure_event]"
    using f1 f2 assms(7) by simp
  show ?thesis using result reqs evs f1 f2 by simp
qed

text \<open>The provider first answers \<open>not json\<close>, then \<open>plain\<close>.\<close>

theorem generate_response_fallback_witness:
  "fst (generate_response demo_cfg (demo_env [says ''not json'', says ''plain''] accepting)
          ''hello'' ''u1'' True ''base'' demo_state) = Inr (PStr ''plain'')
   \<and> json_failures (snd (generate_response demo_cfg
          (demo_env [says ''not json'', says ''plain''] accepting)
          ''hello'' ''u1'' True ''base'' demo_state)) = 1"
proof -
  define env where "env = demo_env [says ''not json'', says ''plain''] accepting"
  define messages where "messages =
    [\<lparr>role = ''system'', content = ''Answer in JSON.''\<rparr>, \<lparr>role = ''user'', content = ''hello''\<rparr>]"
  define fallback_messages where "fallback_messages =
    [\<lparr>role = ''system'', content = ''Answer plainly.''\<rparr>, \<lparr>role = ''user'', content = ''hello''\<rparr>]"
  define failure_event where "failure_event =
    \<lparr>stream_id = ''user_'' @ ''u1'', event_type = ''JSONModeFailureEvent'',
     ev_data = JSONFailureData ''u1'' ''Expecting value: line 1 column 1 (char 0)''\<rparr>"
  define s1 where "s1 = snd (call_api demo_cfg env messages True ''base'' demo_state)"
  define s2 where "s2 = snd (call_api demo_cfg env fallback_messages False ''base''
    (s1\<lparr>json_failures := json_failures s1 + 1, events := events s1 @ [failure_event]\<rparr>))"
  have flags: "use_json_mode demo_cfg" "json_fallback_enabled demo_cfg"
    by (simp_all add: demo_cfg_def)
  have composed: "format_context demo_cfg ''hello'' True False ''base'' = Inr messages"
    "format_context demo_cfg ''hello'' True True ''base'' = Inr fallback_messages"
    by (simp_all add: demo_eval messages_def fallback_messages_def)
  have "fst (call_api demo_cfg env messages True ''base'' demo_state) = Inr ''not json''"
    by (simp add: demo_eval env_def)
  then have first: "call_api demo_cfg env messages True ''base'' demo_state = (Inr ''not json'', s1)"
    by (simp add: s1_def prod_eq_iff)
  have unparseable: "json_loads env ''not json''
      = Inl (JSONDecodeError ''Expecting value: line 1 column 1 (char 0)'')"
    by (simp add: env_def demo_env_def demo_loads_def)
  have stored: "sink_append env (events s1) failure_event = None"
    by (simp add: env_def demo_env_def accepting_def)
  have "fst (call_api demo_cfg env fallback_messages False ''base''
      (s1\<lparr>json_failures := json_failures s1 + 1, events := events s1 @ [failure_event]\<rparr>))
      = Inr ''plain''"
    by (simp add: demo_eval env_def s1_def)
  then have retry: "call_api demo_cfg env fallback_messages False ''base''
      (s1\<lparr>json_failures := json_failures s1 + 1, events := events s1 @ [failure_event]\<rparr>)
      = (Inr ''plain'', s2)"
    by (simp add: s2_def prod_eq_iff)
  have "json_failures demo_state = 0"
    by (simp add: demo_state_def init_def)
  with generate_response_fallback [OF flags composed first unparseable failure_event_def
      stored retry]
  show ?thesis by (simp add: env_def)
qed

text \<open>
  The messages of the fallback phase: the system prompt is built from the plain base
  prompt, without the JSON variant.
\<close>

lemma format_context_force_normal:
  "format_context cfg text include_prompt True mode =
     (if include_prompt then
        (case PROMPTS cfg ''base'' of
           None \<Rightarrow> Inl (KeyError ''base'')
         | Some base_prompts \<Rightarrow>
             (case base_prompts ''normal'' of
                None \<Rightarrow> Inl (KeyError ''normal'')
              | Some base_prompt \<Rightarrow>
                  Inr [\<lparr>role = ''system'',
                        content = build_mode_prompt cfg base_prompt mode False\<rparr>,
                       \<lparr>role = ''user'', content = text\<rparr>]))
      else Inr [\<lparr>role = ''user'', content = text\<rparr>])"
  by (simp add: format_context_def Let_def)

subsection \<open>A well-formed payload without the response field\<close>

text \<open>
  The \<open>ValueError\<close> of \<open>extract_from_json\<close> is not a \<open>JSONDecodeError\<close>, so the handler of
  \<open>generate_response\<close> does not catch it: it leaves the method, with the state as the
  first call left it.
\<close>

lemma generate_response_missing_field:
  assumes "use_json_mode cfg"
    and "format_context cfg text include_prompt False mode = Inr messages"
    and "call_api cfg env messages True mode s = (Inr response, s1)"
    and "json_loads env response = Inr data"
    and "\<forall>kvs. data = PDict kvs \<longrightarrow> map_of kvs ''response'' = None"
  shows "generate_response cfg env text user_id include_prompt mode s
           = (Inl (Exception (ValueError ''JSON doesn't contain 'response' field'' None)), s1)"
proof -
  have "extract_from_json env response user_id True
      = Inl (ValueError ''JSON doesn't contain 'response' field'' None)"
    using assms(4,5) by (cases data) (auto simp: extract_from_json_def Let_def)
  then have "first_attempt cfg env messages True user_id mode s
      = (Inl (Exception (ValueError ''JSON doesn't contain 'response' field'' None)),
         Some response, s1)"
    using assms(3) by (simp add: first_attempt_def structured_result_def)
  then show ?thesis
    using assms(1,2) by (simp add: generate_response_def Let_def)
qed

text \<open>
  C1. The provider answers \<^verbatim>\<open>{"answer": 42}\<close>, well-formed JSON without the field
  \<open>response\<close>, with structured mode and fallback enabled. \<open>generate_response\<close> raises the
  \<open>ValueError\<close>: the failure counter stays at 0, a single request has been made (no
  fallback call), the only event is the cache metric (no \<open>JSONModeFailureEvent\<close>), and
  \<open>handle_message\<close> sends an error message. With fallback disabled the same exception is
  raised, and the raw text is not returned.
\<close>

theorem generate_response_missing_field_no_fallback:
  \<open>fst (generate_response demo_cfg (demo_env [says ''{"answer": 42}'', says ''plain''] accepting)
          ''hello'' ''u1'' True ''base'' demo_state)
     = Inl (Exception (ValueError ''JSON doesn't contain 'response' field'' None))
   \<and> json_failures (snd (generate_response demo_cfg
          (demo_env [says ''{"answer": 42}'', says ''plain''] accepting)
          ''hello'' ''u1'' True ''base'' demo_state)) = 0
   \<and> length (requests (snd (generate_response demo_cfg
          (demo_env [says ''{"answer": 42}'', says ''plain''] accepting)
          ''hello'' ''u1'' True ''base'' demo_state))) = 1
   \<and> map event_type (events (snd (generate_response demo_cfg
          (demo_env [says ''{"answer": 42}'', says ''plain''] accepting)
          ''hello'' ''u1'' True ''base'' demo_state))) = [''CacheHitMetricEvent'']
   \<and> fst (generate_response (demo_cfg\<lparr>json_fallback_enabled := False\<rparr>)
          (demo_env [says ''{"answer": 42}'', says ''plain''] accepting)
          ''hello'' ''u1'' True ''base'' demo_state)
     = Inl (Exception (ValueError ''JSON doesn't contain 'response' field'' None))
   \<and> map (out_payload \<circ> snd) (outbox (snd (handle_message demo_cfg
          (demo_env [says ''{"answer": 42}'', says ''plain''] accepting)
          (demo_message ''generate_response'' ''base'') demo_state)))
     = [ErrorPayload ''u1'' (PInt 7)
          (ValueError ''JSON doesn't contain 'response' field'' None) ''generation_error'']\<close>
  by (simp add: demo_eval generate_eval handle_message_def demo_message_def send_message_def)

subsection \<open>A sink that fails\<close>

text \<open>
  C2, as stated, does not hold. The provider answers \<^verbatim>\<open>{"response": "hi there"}\<close> and the
  sink refuses the \<open>GenerationParametersUsedEvent\<close>: \<open>generate_response\<close> raises the
  sink's exception, and \<open>handle_message\<close> sends an error message where, with a sink that
  stores the event, it sends the generated text.
\<close>

theorem sink_failure_counterexample:
  \<open>fst (generate_response demo_cfg
          (demo_env [says ''{"response": "hi there"}''] (refusing ''GenerationParametersUsedEvent''))
          ''hello'' ''u1'' True ''base'' demo_state)
     = Inl (Exception (OtherError ''EventStoreError'' ''append failed''))
   \<and> map (out_payload \<circ> snd) (outbox (snd (handle_message demo_cfg
          (demo_env [says ''{"response": "hi there"}''] (refusing ''GenerationParametersUsedEvent''))
          (demo_message ''generate_response'' ''base'') demo_state)))
     = [ErrorPayload ''u1'' (PInt 7)
          (OtherError ''EventStoreError'' ''append failed'') ''generation_error'']
   \<and> map (out_payload \<circ> snd) (outbox (snd (handle_message demo_cfg
          (demo_env [says ''{"response": "hi there"}''] accepting)
          (demo_message ''generate_response'' ''base'') demo_state)))
     = [BotResponsePayload ''u1'' (PInt 7) (PStr ''hi there'')]\<close>
  by (simp add: demo_eval generate_eval handle_message_def demo_message_def send_message_def)

text \<open>What the sink raises leaves \<open>append_event\<close> and the block that emits the parameters.\<close>

lemma append_event_refused:
  "sink_append env (events s) event = Some e \<Longrightarrow> append_event env event s = (Inl e, s)"
  by (simp add: append_event_def)

lemma log_parameters_used_refused:
  assumes "MODE_GENERATION_PARAMS cfg ''base'' = Some base_params"
    and "\<forall>event. event_type event = ''GenerationParametersUsedEvent'' \<longrightarrow>
           sink_append env (events s) event = Some r"
  shows "log_parameters_used cfg env user_id mode (Inr len) s = (Inl r, s)"
  using assms by (simp add: log_parameters_used_def Let_def append_event_def)

text \<open>
  C2, amended. A failure of the sink's append passes through \<open>append_event\<close>, whatever
  the event and whatever is raised, and \<open>generate_response\<close> catches nothing but
  \<open>JSONDecodeError\<close>. So when the provider call has returned, the text is usable (in
  structured mode: it parses to a dict whose \<open>response\<close> is a string, and the validation
  block, if enabled, has gone through), the logging of parameters is enabled, and on the
  \<open>GenerationParametersUsedEvent\<close> the sink raises an exception \<open>e\<close> of a subclass of
  \<^verbatim>\<open>Exception\<close> that is not a \<open>JSONDecodeError\<close>, then the request fails with \<open>e\<close>, and
  \<open>handle_message\<close>, whose handler is \<^verbatim>\<open>except Exception\<close>, sends the caller an error
  message that carries \<open>e\<close> in place of the generated text.
\<close>

theorem sink_failure_fails_request:
  assumes "format_context cfg text include_prompt False mode = Inr messages"
    and "call_api cfg env messages (use_json_mode cfg) mode s = (Inr response, s1)"
    and "if use_json_mode cfg then
           json_loads env response = Inr (PDict kvs)
           \<and> map_of kvs ''response'' = Some (PStr answer)
           \<and> (if JSON_VALIDATION_LOG_FAILURES cfg
               then validate_and_count cfg env user_id mode (PDict kvs) s1 = (Inr (), s2)
               else s2 = s1)
         else answer = response \<and> s2 = s1"
    and "get_default (GENERATION_PARAMS_LOG_CONFIG cfg) ''log_parameters_usage'' True"
    and "MODE_GENERATION_PARAMS cfg ''base'' = Some base_params"
    and "\<forall>event. event_type event = ''GenerationParametersUsedEvent'' \<longrightarrow>
           sink_append env (events s2) event = Some (Exception e)"
    and "\<forall>msg. e \<noteq> JSONDecodeError msg"
  shows "(\<forall>event st r. sink_append env (events st) event = Some r \<longrightarrow>
             append_event env event st = (Inl r, st))
       \<and> generate_response cfg env text user_id include_prompt mode s
           = (Inl (Exception e), s2)
       \<and> handle_message cfg env
            \<lparr>sender_id = sender, message_type = MESSAGE_TYPES GENERATE_RESPONSE,
             payload = \<lparr>p_user_id = Some user_id, p_chat_id = Some chat_id,
                        p_text = Some text, p_include_prompt = Some include_prompt,
                        p_mode = Some mode\<rparr>\<rparr> s
           = (Inr None,
              send_message env ''telegram''
                \<lparr>out_sender_id = ''generation'', out_message_type = MESSAGE_TYPES ERROR,
                 out_payload = ErrorPayload user_id chat_id e ''generation_error''\<rparr> s2)"
proof -
  have refused: "log_parameters_used cfg env user_id mode (Inr len) s2
      = (Inl (Exception e), s2)" for len
    using assms(5,6) by (rule log_parameters_used_refused)
  have attempt: "first_attempt cfg env messages (use_json_mode cfg) user_id mode s
      = (Inl (Exception e), Some response, s2)"
  proof (cases "use_json_mode cfg")
    case True
    with assms(3) have parsed: "json_loads env response = Inr (PDict kvs)"
      and field: "map_of kvs ''response'' = Some (PStr answer)"
      and checked: "if JSON_VALIDATION_LOG_FAILURES cfg
               then validate_and_count cfg env user_id mode (PDict kvs) s1 = (Inr (), s2)
               else s2 = s1"
      by simp_all
    have extracted: "extract_from_json env response user_id True = Inr (PDict kvs)"
      using parsed field by (simp add: extract_from_json_def)
    have "structured_result cfg env user_id mode response s1 = (Inl (Exception e), s2)"
      using extracted field checked assms(4) refused
      by (cases "JSON_VALIDATION_LOG_FAILURES cfg")
        (simp_all add: structured_result_def)
    with True assms(2) show ?thesis by (simp add: first_attempt_def)
  next
    case False
    with assms(3) have "s2 = s1" by simp
    with False assms(2,4) refused show ?thesis
      by (simp add: first_attempt_def plain_result_def)
  qed
  have gen: "generate_response cfg env text user_id include_prompt mode s
      = (Inl (Exception e), s2)"
    using assms(1,7) attempt by (cases e) (simp_all add: generate_response_def Let_def)
  have app: "\<forall>event st r. sink_append env (events st) event = Some r \<longrightarrow>
      append_event env event st = (Inl r, st)"
    by (simp add: append_event_refused)
  show ?thesis using gen app by (simp add: handle_message_def)
qed

theorem sink_failure_fails_request_witness:
  \<open>fst (generate_response demo_cfg
          (demo_env [says ''{"response": "hi there"}''] (refusing ''GenerationParametersUsedEvent''))
          ''hello'' ''u1'' True ''base'' demo_state)
     = Inl (Exception (OtherError ''EventStoreError'' ''append failed''))
   \<and> fst (handle_message demo_cfg
          (demo_env [says ''{"response": "hi there"}''] (refusing ''GenerationParametersUsedEvent''))
          \<lparr>sender_id = None, message_type = MESSAGE_TYPES GENERATE_RESPONSE,
           payload = \<lparr>p_user_id = Some ''u1'', p_chat_id = Some (PInt 7),
                      p_text = Some ''hello'', p_include_prompt = Some True,
                      p_mode = Some ''base''\<rparr>\<rparr> demo_state)
     = Inr None\<close>
proof -
  define env where
    \<open>env = demo_env [says ''{"response": "hi there"}''] (refusing ''GenerationParametersUsedEvent'')\<close>
  define messages where "messages =
    [\<lparr>role = ''system'', content = ''Answer in JSON.''\<rparr>, \<lparr>role = ''user'', content = ''hello''\<rparr>]"
  define s1 where "s1 = snd (call_api demo_cfg env messages (use_json_mode demo_cfg) ''base'' demo_state)"
  define s2 where "s2 = snd (validate_and_count demo_cfg env ''u1'' ''base''
    (PDict [(''response'', PStr ''hi there'')]) s1)"
  have composed: "format_context demo_cfg ''hello'' True False ''base'' = Inr messages"
    by (simp add: demo_eval messages_def)
  have \<open>fst (call_api demo_cfg env messages (use_json_mode demo_cfg) ''base'' demo_state)
      = Inr ''{"response": "hi there"}''\<close>
    by (simp add: demo_eval env_def)
  then have first: \<open>call_api demo_cfg env messages (use_json_mode demo_cfg) ''base'' demo_state
      = (Inr ''{"response": "hi there"}'', s1)\<close>
    by (simp add: s1_def prod_eq_iff)
  have "fst (validate_and_count demo_cfg env ''u1'' ''base''
      (PDict [(''response'', PStr ''hi there'')]) s1) = Inr ()"
    by (simp add: demo_eval generate_eval env_def s1_def)
  then have counted: "validate_and_count demo_cfg env ''u1'' ''base''
      (PDict [(''response'', PStr ''hi there'')]) s1 = (Inr (), s2)"
    by (simp add: s2_def prod_eq_iff)
  have structured: \<open>if use_json_mode demo_cfg then
      json_loads env ''{"response": "hi there"}'' = Inr (PDict [(''response'', PStr ''hi there'')])
      \<and> map_of [(''response'', PStr ''hi there'')] ''response'' = Some (PStr ''hi there'')
      \<and> (if JSON_VALIDATION_LOG_FAILURES demo_cfg
          then validate_and_count demo_cfg env ''u1'' ''base''
                 (PDict [(''response'', PStr ''hi there'')]) s1 = (Inr (), s2)
          else s2 = s1)
      else ''hi there'' = ''{"response": "hi there"}'' \<and> s2 = s1\<close>
    using counted by (simp add: demo_cfg_def env_def demo_env_def demo_loads_def)
  have logging: "get_default (GENERATION_PARAMS_LOG_CONFIG demo_cfg) ''log_parameters_usage'' True"
    by (simp add: demo_cfg_def get_default_def)
  have params: "MODE_GENERATION_PARAMS demo_cfg ''base''
      = Some [''temperature'' \<mapsto> 82 / 100, ''max_tokens'' \<mapsto> 1800]"
    by (simp add: demo_cfg_def)
  have refuses: "\<forall>event. event_type event = ''GenerationParametersUsedEvent'' \<longrightarrow>
      sink_append env (events s2) event
        = Some (Exception (OtherError ''EventStoreError'' ''append failed''))"
    by (simp add: env_def demo_env_def refusing_def)
  have other: "\<forall>msg. OtherError ''EventStoreError'' ''append failed'' \<noteq> JSONDecodeError msg"
    by simp
  from sink_failure_fails_request [OF composed first structured logging params refuses other,
      where sender = None and chat_id = "PInt 7"]
  show ?thesis by (simp add: env_def)
qed

text \<open>
  An exception outside \<^verbatim>\<open>Exception\<close>, such as the \<^verbatim>\<open>CancelledError\<close> of a task cancelled
  while the append is awaited, is not caught by \<open>handle_message\<close> either: under the same
  conditions it leaves the method, and no message is sent at all.
\<close>

lemma sink_cancellation_leaves_handle_message:
  assumes "format_context cfg text include_prompt False mode = Inr messages"
    and "call_api cfg env messages (use_json_mode cfg) mode s = (Inr response, s1)"
    and "if use_json_mode cfg then
           json_loads env response = Inr (PDict kvs)
           \<and> map_of kvs ''response'' = Some (PStr answer)
           \<and> (if JSON_VALIDATION_LOG_FAILURES cfg
               then validate_and_count cfg env user_id mode (PDict kvs) s1 = (Inr (), s2)
               else s2 = s1)
         else answer = response \<and> s2 = s1"
    and "get_default (GENERATION_PARAMS_LOG_CONFIG cfg) ''log_parameters_usage'' True"
    and "MODE_GENERATION_PARAMS cfg ''base'' = Some base_params"
    and "\<forall>event. event_type event = ''GenerationParametersUsedEvent'' \<longrightarrow>
           sink_append env (events s2) event = Some (BaseException name)"
  shows "generate_response cfg env text user_id include_prompt mode s
           = (Inl (BaseException name), s2)
       \<and> handle_message cfg env
            \<lparr>sender_id = sender, message_type = MESSAGE_TYPES GENERATE_RESPONSE,
             payload = \<lparr>p_user_id = Some user_id, p_chat_id = Some chat_id,
                        p_text = Some text, p_include_prompt = Some include_prompt,
                        p_mode = Some mode\<rparr>\<rparr> s
           = (Inl (BaseException name), s2)"
proof -
  have refused: "log_parameters_used cfg env user_id mode (Inr len) s2
      = (Inl (BaseException name), s2)" for len
    using assms(5,6) by (rule log_parameters_used_refused)
  have attempt: "first_attempt cfg env messages (use_json_mode cfg) user_id mode s
      = (Inl (BaseException name), Some response, s2)"
  proof (cases "use_json_mode cfg")
    case True
    with assms(3) have parsed: "json_loads env response = Inr (PDict kvs)"
      and field: "map_of kvs ''response'' = Some (PStr answer)"
      and checked: "if JSON_VALIDATION_LOG_FAILURES cfg
               then validate_and_count cfg env user_id mode (PDict kvs) s1 = (Inr (), s2)
               else s2 = s1"
      by simp_all
    have extracted: "extract_from_json env response user_id True = Inr (PDict kvs)"
      using parsed field by (simp add: extract_from_json_def)
    have "structured_result cfg env user_id mode response s1 = (Inl (BaseException name), s2)"
      using extracted field checked assms(4) refused
      by (cases "JSON_VALIDATION_LOG_FAILURES cfg")
        (simp_all add: structured_result_def)
    with True assms(2) show ?thesis by (simp add: first_attempt_def)
  next
    case False
    with assms(3) have "s2 = s1" by simp
    with False assms(2,4) refused show ?thesis
      by (simp add: first_attempt_def plain_result_def)
  qed
  have gen: "generate_response cfg env text user_id include_prompt mode s
      = (Inl (BaseException name), s2)"
    using assms(1) attempt by (simp add: generate_response_def Let_def)
  then show ?thesis by (simp add: handle_message_def)
qed

text \<open>The task is cancelled at the append: nothing is sent, and the exception is the outcome.\<close>

lemma sink_cancellation_example:
  \<open>fst (handle_message demo_cfg
          (demo_env [says ''{"response": "hi there"}''] (cancelling ''GenerationParametersUsedEvent''))
          (demo_message ''generate_response'' ''base'') demo_state)
     = Inl (BaseException ''CancelledError'')
   \<and> outbox (snd (handle_message demo_cfg
          (demo_env [says ''{"response": "hi there"}''] (cancelling ''GenerationParametersUsedEvent''))
          (demo_message ''generate_response'' ''base'') demo_state)) = []\<close>
  by (simp add: demo_eval generate_eval handle_message_def demo_message_def send_message_def)

subsection \<open>A mode without counters\<close>

text \<open>
  \<open>init\<close> gives a counter to the four modes, and the validation block changes the value
  of a counter but never the set of modes that have one.
\<close>

lemma init_counted_modes:
  "dom (mode_success_counts (init now)) = counted_modes
   \<and> dom (mode_failure_counts (init now)) = counted_modes"
  by (auto simp: init_def mode_counts_init_def counted_modes_def)

lemma validate_and_count_dom:
  assumes "validate_and_count cfg env user_id mode full_data s = (r, s1)"
  shows "dom (mode_success_counts s1) = dom (mode_success_counts s)
       \<and> dom (mode_failure_counts s1) = dom (mode_failure_counts s)"
  using assms
  by (auto simp: validate_and_count_def log_validation_failure_def append_event_def
      split: sum.splits prod.splits if_splits option.splits pyval.splits)

text \<open>
  C9. The mode is none of \<open>base\<close>, \<open>talk\<close>, \<open>expert\<close>, \<open>creative\<close>, the counters are
  kept for exactly these four, structured mode and the logging of validation failures are
  enabled, the provider call returns, extraction yields a dict, validation returns its
  verdict and, for an invalid payload, the sink stores the \<open>JSONValidationFailedEvent\<close>.
  Then the update of the counter raises \<open>KeyError\<close> for the mode, and this is the outcome
  of \<open>generate_response\<close>: the mode is not resolved to the entry of \<open>base\<close>.
\<close>

theorem generate_response_unknown_mode:
  assumes "mode \<notin> counted_modes"
    and "dom (mode_success_counts s) = counted_modes"
    and "dom (mode_failure_counts s) = counted_modes"
    and "use_json_mode cfg" and "JSON_VALIDATION_LOG_FAILURES cfg"
    and "format_context cfg text include_prompt False mode = Inr messages"
    and "call_api cfg env messages True mode s = (Inr response, s1)"
    and "extract_from_json env response user_id True = Inr (PDict kvs)"
    and "validate_structured_response cfg env (PDict kvs) mode = Inr (is_valid, errors)"
    and "failed_event = \<lparr>stream_id = ''validation_'' @ user_id,
           event_type = ''JSONValidationFailedEvent'',
           ev_data = ValidationFailedData user_id errors (map fst kvs)\<rparr>"
    and "is_valid \<or> sink_append env (events s1) failed_event = None"
  shows "generate_response cfg env text user_id include_prompt mode s
           = (Inl (Exception (KeyError mode)),
              if is_valid then s1 else s1\<lparr>events := events s1 @ [failed_event]\<rparr>)"
proof -
  note frame = call_api_frame [OF assms(7)]
  from assms(1-3) frame have absent:
    "mode_success_counts s1 mode = None" "mode_failure_counts s1 mode = None"
    by (auto simp: domIff [symmetric] simp del: domIff)
  have counted: "validate_and_count cfg env user_id mode (PDict kvs) s1
      = (Inl (Exception (KeyError mode)),
         if is_valid then s1 else s1\<lparr>events := events s1 @ [failed_event]\<rparr>)"
    using assms(9-11) absent
    by (cases is_valid)
      (simp_all add: validate_and_count_def log_validation_failure_def append_event_def)
  have "structured_result cfg env user_id mode response s1
      = (Inl (Exception (KeyError mode)),
         if is_valid then s1 else s1\<lparr>events := events s1 @ [failed_event]\<rparr>)"
    using assms(5,8) counted by (simp add: structured_result_def)
  then have "first_attempt cfg env messages True user_id mode s
      = (Inl (Exception (KeyError mode)), Some response,
         if is_valid then s1 else s1\<lparr>events := events s1 @ [failed_event]\<rparr>)"
    using assms(7) by (simp add: first_attempt_def)
  then show ?thesis
    using assms(4,6) by (simp add: generate_response_def Let_def)
qed

text \<open>The unregistered mode \<open>poet\<close>, with a payload that is valid.\<close>

theorem generate_response_unknown_mode_witness:
  \<open>fst (generate_response demo_cfg (demo_env [says ''{"response": "hi there"}''] accepting)
          ''hello'' ''u1'' True ''poet'' demo_state)
     = Inl (Exception (KeyError ''poet''))\<close>
proof -
  define env where \<open>env = demo_env [says ''{"response": "hi there"}''] accepting\<close>
  define messages where "messages =
    [\<lparr>role = ''system'', content = ''Answer in JSON.''\<rparr>, \<lparr>role = ''user'', content = ''hello''\<rparr>]"
  define s1 where "s1 = snd (call_api demo_cfg env messages True ''poet'' demo_state)"
  have unknown: "''poet'' \<notin> counted_modes"
    by (simp add: counted_modes_def)
  have keys: "dom (mode_success_counts demo_state) = counted_modes"
    "dom (mode_failure_counts demo_state) = counted_modes"
    using init_counted_modes [of 1000] by (simp_all add: demo_state_def)
  have flags: "use_json_mode demo_cfg" "JSON_VALIDATION_LOG_FAILURES demo_cfg"
    by (simp_all add: demo_cfg_def)
  have composed: "format_context demo_cfg ''hello'' True False ''poet'' = Inr messages"
    by (simp add: demo_eval messages_def)
  have \<open>fst (call_api demo_cfg env messages True ''poet'' demo_state)
      = Inr ''{"response": "hi there"}''\<close>
    by (simp add: demo_eval env_def)
  then have first: \<open>call_api demo_cfg env messages True ''poet'' demo_state
      = (Inr ''{"response": "hi there"}'', s1)\<close>
    by (simp add: s1_def prod_eq_iff)
  have extracted: \<open>extract_from_json env ''{"response": "hi there"}'' ''u1'' True
      = Inr (PDict [(''response'', PStr ''hi there'')])\<close>
    by (simp add: extract_from_json_def env_def demo_env_def demo_loads_def)
  have valid: "validate_structured_response demo_cfg env
      (PDict [(''response'', PStr ''hi there'')]) ''poet'' = Inr (True, [])"
    by (simp add: validate_structured_response_def env_def demo_env_def demo_parse_def)
  from generate_response_unknown_mode [OF unknown keys flags composed first extracted valid refl]
  show ?thesis by (simp add: env_def)
qed

subsection \<open>The counters keep their keys\<close>

text \<open>
  No step of \<open>generate_response\<close> or \<open>handle_message\<close> adds or removes a key of the
  per-mode counters: the four keys that \<open>init\<close> sets up stay the only ones, whatever the
  request and however it ends.
\<close>

lemma append_event_counts:
  assumes "append_event env event s = (r, s1)"
  shows "mode_success_counts s1 = mode_success_counts s
       \<and> mode_failure_counts s1 = mode_failure_counts s"
  using assms by (auto simp: append_event_def split: option.splits)

lemma log_parameters_used_counts:
  assumes "log_parameters_used cfg env user_id mode len s = (r, s1)"
  shows "mode_success_counts s1 = mode_success_counts s
       \<and> mode_failure_counts s1 = mode_failure_counts s"
  using assms
  by (auto simp: log_parameters_used_def Let_def dest: append_event_counts
      split: option.splits sum.splits)

lemma structured_result_dom:
  assumes "structured_result cfg env user_id mode response s = (r, s1)"
  shows "dom (mode_success_counts s1) = dom (mode_success_counts s)
       \<and> dom (mode_failure_counts s1) = dom (mode_failure_counts s)"
proof (cases "extract_from_json env response user_id True")
  case (Inl e)
  with assms show ?thesis by (simp add: structured_result_def)
next
  case (Inr full_data)
  obtain rv sv where v: "(if JSON_VALIDATION_LOG_FAILURES cfg \<and> is_dict full_data
       then validate_and_count cfg env user_id mode full_data s else (Inr (), s)) = (rv, sv)"
    by (metis surj_pair)
  have dv: "dom (mode_success_counts sv) = dom (mode_success_counts s)
       \<and> dom (mode_failure_counts sv) = dom (mode_failure_counts s)"
    using v validate_and_count_dom [of cfg env user_id mode full_data s rv sv]
    by (auto split: if_splits)
  show ?thesis
  proof (cases rv)
    case (Inl e)
    with assms Inr v dv show ?thesis by (simp add: structured_result_def)
  next
    case ok: (Inr u)
    from assms Inr v ok have "s1 = sv
        \<or> (\<exists>len r'. log_parameters_used cfg env user_id mode len sv = (r', s1))"
      by (auto simp: structured_result_def split: sum.splits prod.splits if_splits)
    with dv log_parameters_used_counts show ?thesis by metis
  qed
qed

lemma plain_result_counts:
  assumes "plain_result cfg env user_id mode response s = (r, s1)"
  shows "mode_success_counts s1 = mode_success_counts s
       \<and> mode_failure_counts s1 = mode_failure_counts s"
  using assms
  by (auto simp: plain_result_def dest: log_parameters_used_counts
      split: if_splits sum.splits prod.splits)

lemma first_attempt_dom:
  assumes "first_attempt cfg env messages use_json user_id mode s = (r, response, s1)"
  shows "dom (mode_success_counts s1) = dom (mode_success_counts s)
       \<and> dom (mode_failure_counts s1) = dom (mode_failure_counts s)"
proof -
  obtain rc sc where c: "call_api cfg env messages use_json mode s = (rc, sc)"
    by (metis surj_pair)
  note fc = call_api_frame [OF c]
  show ?thesis
  proof (cases rc)
    case (Inl e)
    with assms c fc show ?thesis by (simp add: first_attempt_def)
  next
    case (Inr answer)
    with assms c have "structured_result cfg env user_id mode answer sc = (r, s1)
        \<or> plain_result cfg env user_id mode answer sc = (r, s1)"
      by (auto simp: first_attempt_def split: if_splits prod.splits)
    with fc structured_result_dom plain_result_counts show ?thesis by metis
  qed
qed

lemma generate_response_dom:
  assumes "generate_response cfg env text user_id include_prompt mode s = (r, s1)"
  shows "dom (mode_success_counts s1) = dom (mode_success_counts s)
       \<and> dom (mode_failure_counts s1) = dom (mode_failure_counts s)"
proof (cases "format_context cfg text include_prompt False mode")
  case (Inl e)
  with assms show ?thesis by (simp add: generate_response_def)
next
  case (Inr messages)
  obtain ra response sa
    where a: "first_attempt cfg env messages (use_json_mode cfg) user_id mode s = (ra, response, sa)"
    by (metis surj_pair)
  note fa = first_attempt_dom [OF a]
  show ?thesis
  proof (cases "\<exists>msg. ra = Inl (Exception (JSONDecodeError msg))")
    case False
    with assms Inr a have "s1 = sa"
      by (auto simp: generate_response_def Let_def split: sum.splits exn.splits raised.splits)
    with fa show ?thesis by simp
  next
    case True
    then obtain msg where ra: "ra = Inl (Exception (JSONDecodeError msg))" by auto
    obtain rl sl where l: "log_json_failure env user_id msg
        (sa\<lparr>json_failures := json_failures sa + 1\<rparr>) = (rl, sl)"
      by (metis surj_pair)
    have fl: "mode_success_counts sl = mode_success_counts sa
        \<and> mode_failure_counts sl = mode_failure_counts sa"
      using l append_event_counts by (fastforce simp: log_json_failure_def)
    from assms Inr a ra l have "s1 = sl
        \<or> (\<exists>fm rf. call_api cfg env fm False mode sl = (rf, s1))"
      by (auto simp: generate_response_def Let_def split: sum.splits prod.splits if_splits
          option.splits)
    with fa fl call_api_frame show ?thesis by metis
  qed
qed

lemma send_message_counts:
  "mode_success_counts (send_message env recipient out s) = mode_success_counts s
   \<and> mode_failure_counts (send_message env recipient out s) = mode_failure_counts s"
  by (simp add: send_message_def)

lemma handle_message_dom:
  assumes "handle_message cfg env message s = (r, s1)"
  shows "dom (mode_success_counts s1) = dom (mode_success_counts s)
       \<and> dom (mode_failure_counts s1) = dom (mode_failure_counts s)"
proof -
  define include_prompt where "include_prompt =
    (case p_include_prompt (payload message) of None \<Rightarrow> True | Some b \<Rightarrow> b)"
  define mode where "mode = (case p_mode (payload message) of None \<Rightarrow> ''base'' | Some m \<Rightarrow> m)"
  have "s1 = s \<or> (\<exists>user_id txt rg sg out.
      generate_response cfg env txt user_id include_prompt mode s = (rg, sg)
      \<and> (s1 = sg \<or> s1 = send_message env ''telegram'' out sg))"
    using assms unfolding handle_message_def Let_def include_prompt_def mode_def
    by (simp split: if_splits option.splits sum.splits prod.splits raised.splits) blast+
  then show ?thesis
    using generate_response_dom send_message_counts by metis
qed

end
